theory Spec2Isabelle
  imports Complex_Main "HOL-Library.Word" "HOL-Library.Monad_Syntax"
begin

section \<open>Byte buffers and the DataView writers used by \<open>pcmToWav\<close>\<close>

text \<open>
  An \<open>ArrayBuffer\<close> is a list of bytes; a \<open>DataView\<close> over the whole buffer is the
  same list. A setter called with an offset outside the view throws a \<open>RangeError\<close> in
  JavaScript: here it returns \<open>None\<close>. All multi-byte setters of \<open>pcmToWav\<close> are
  called with \<open>littleEndian = true\<close>; the value argument is an integer-valued
  JavaScript number, which the setter reduces modulo the width of the field
  (\<open>ToUint8\<close>, \<open>ToUint16\<close>, \<open>ToUint32\<close>, \<open>ToInt16\<close>): \<open>word_of_int\<close> to a byte is
  that reduction of each byte of the little-endian representation.
\<close>

type_synonym byte = "8 word"

definition setUint8 :: "nat \<Rightarrow> int \<Rightarrow> byte list \<Rightarrow> byte list option" where
  "setUint8 byteOffset v view =
     (if byteOffset + 1 \<le> length view
      then Some (view[byteOffset := word_of_int v])
      else None)"

definition setUint16 :: "nat \<Rightarrow> int \<Rightarrow> byte list \<Rightarrow> byte list option" where
  "setUint16 byteOffset v view =
     (if byteOffset + 2 \<le> length view
      then Some (view[byteOffset := word_of_int v,
                      byteOffset + 1 := word_of_int (v div 256)])
      else None)"

definition setInt16 :: "nat \<Rightarrow> int \<Rightarrow> byte list \<Rightarrow> byte list option" where
  "setInt16 byteOffset v view =
     (if byteOffset + 2 \<le> length view
      then Some (view[byteOffset := word_of_int v,
                      byteOffset + 1 := word_of_int (v div 256)])
      else None)"

definition setUint32 :: "nat \<Rightarrow> int \<Rightarrow> byte list \<Rightarrow> byte list option" where
  "setUint32 byteOffset v view =
     (if byteOffset + 4 \<le> length view
      then Some (view[byteOffset := word_of_int v,
                      byteOffset + 1 := word_of_int (v div 256),
                      byteOffset + 2 := word_of_int (v div 65536),
                      byteOffset + 3 := word_of_int (v div 16777216)])
      else None)"

text \<open>
  The readers of a \<open>DataView\<close> (\<open>getUint16\<close>, \<open>getUint32\<close>, \<open>getInt16\<close>, little-endian),
  by which a consumer of the container parses it again. They are not part of the
  source; the layout theorems are stated with them.
\<close>

definition getUint16 :: "nat \<Rightarrow> byte list \<Rightarrow> int" where
  "getUint16 byteOffset view =
     uint (view ! byteOffset) + 256 * uint (view ! (byteOffset + 1))"

definition getUint32 :: "nat \<Rightarrow> byte list \<Rightarrow> int" where
  "getUint32 byteOffset view =
     uint (view ! byteOffset) + 256 * uint (view ! (byteOffset + 1))
       + 65536 * uint (view ! (byteOffset + 2)) + 16777216 * uint (view ! (byteOffset + 3))"

definition getInt16 :: "nat \<Rightarrow> byte list \<Rightarrow> int" where
  "getInt16 byteOffset view =
     (let u = getUint16 byteOffset view in if u < 32768 then u else u - 65536)"

section \<open>\<open>pcmToWav\<close>\<close>

text \<open>
  \<open>writeString(view, offset, string)\<close>: the loop
  \<open>for (let i = 0; i < string.length; i++) view.setUint8(offset + i, string.charCodeAt(i))\<close>,
  with the loop counter \<open>i\<close> as an argument.
\<close>

function writeString_loop :: "byte list \<Rightarrow> nat \<Rightarrow> string \<Rightarrow> nat \<Rightarrow> byte list option" where
  "writeString_loop view offset string i =
     (if i < length string
      then (case setUint8 (offset + i) (of_char (string ! i)) view of
              None \<Rightarrow> None
            | Some view' \<Rightarrow> writeString_loop view' offset string (i + 1))
      else Some view)"
  by pat_completeness auto
termination
  by (relation "measure (\<lambda>(view, offset, string, i). length string - i)") auto

definition writeString :: "byte list \<Rightarrow> nat \<Rightarrow> string \<Rightarrow> byte list option" where
  "writeString view offset string = writeString_loop view offset string 0"

text \<open>
  An \<open>Int16Array\<close> is the list of its elements, 16-bit words; reading element \<open>i\<close>
  gives the signed number \<open>sint (pcm16 ! i)\<close>, and \<open>byteLength\<close> is twice the length.
  The sample loop \<open>for (let i = 0; i < pcm16.length; i++)
  view.setInt16(dataOffset + i * 2, pcm16[i], true)\<close>:
\<close>

definition byteLength :: "16 word list \<Rightarrow> nat" where
  "byteLength pcm16 = 2 * length pcm16"

function samples_loop :: "byte list \<Rightarrow> nat \<Rightarrow> 16 word list \<Rightarrow> nat \<Rightarrow> byte list option" where
  "samples_loop view dataOffset pcm16 i =
     (if i < length pcm16
      then (case setInt16 (dataOffset + i * 2) (sint (pcm16 ! i)) view of
              None \<Rightarrow> None
            | Some view' \<Rightarrow> samples_loop view' dataOffset pcm16 (i + 1))
      else Some view)"
  by pat_completeness auto
termination
  by (relation "measure (\<lambda>(view, dataOffset, pcm16, i). length pcm16 - i)") auto

text \<open>
  The writes of \<open>pcmToWav\<close> on a view, in the order of the source. The sample rate is
  an integer-valued JavaScript number, modelled as \<open>int\<close>.
\<close>

definition write_wav :: "byte list \<Rightarrow> 16 word list \<Rightarrow> int \<Rightarrow> byte list option" where
  "write_wav view0 pcm16 sampleRate =
     (let numChannels = 1; bytesPerSample = 2 in
      do {
        view \<leftarrow> writeString view0 0 ''RIFF'';
        view \<leftarrow> setUint32 4 (36 + int (byteLength pcm16)) view;
        view \<leftarrow> writeString view 8 ''WAVE'';
        view \<leftarrow> writeString view 12 ''fmt '';
        view \<leftarrow> setUint32 16 16 view;
        view \<leftarrow> setUint16 20 1 view;
        view \<leftarrow> setUint16 22 numChannels view;
        view \<leftarrow> setUint32 24 sampleRate view;
        view \<leftarrow> setUint32 28 (sampleRate * numChannels * bytesPerSample) view;
        view \<leftarrow> setUint16 32 (numChannels * bytesPerSample) view;
        view \<leftarrow> setUint16 34 (bytesPerSample * 8) view;
        view \<leftarrow> writeString view 36 ''data'';
        view \<leftarrow> setUint32 40 (int (byteLength pcm16)) view;
        samples_loop view 44 pcm16 0
      })"

text \<open>
  A \<open>Blob\<close>: its bytes and its MIME type. \<open>new ArrayBuffer(n)\<close> is \<open>n\<close> zero bytes.
\<close>

record Blob =
  blob_bytes :: "byte list"
  blob_type :: string

definition pcmToWav :: "16 word list \<Rightarrow> int \<Rightarrow> Blob option" where
  "pcmToWav pcm16 sampleRate =
     do {
       view \<leftarrow> write_wav (replicate (44 + byteLength pcm16) 0) pcm16 sampleRate;
       Some \<lparr>blob_bytes = view, blob_type = ''audio/wav''\<rparr>
     }"

text \<open>
  The fields of the container as a consumer parses them (RIFF/WAVE layout: chunk size at
  byte 4, format tag at 20, channel count at 22, sample rate at 24, byte rate at 28,
  block align at 32, bits per sample at 34, data size at 40, samples from byte 44).
\<close>

definition wav_size :: "Blob \<Rightarrow> nat" where
  "wav_size wav = length (blob_bytes wav)"

definition wav_chunkSize :: "Blob \<Rightarrow> int" where
  "wav_chunkSize wav = getUint32 4 (blob_bytes wav)"

definition wav_formatTag :: "Blob \<Rightarrow> int" where
  "wav_formatTag wav = getUint16 20 (blob_bytes wav)"

definition wav_numChannels :: "Blob \<Rightarrow> int" where
  "wav_numChannels wav = getUint16 22 (blob_bytes wav)"

definition wav_sampleRate :: "Blob \<Rightarrow> int" where
  "wav_sampleRate wav = getUint32 24 (blob_bytes wav)"

definition wav_byteRate :: "Blob \<Rightarrow> int" where
  "wav_byteRate wav = getUint32 28 (blob_bytes wav)"

definition wav_blockAlign :: "Blob \<Rightarrow> int" where
  "wav_blockAlign wav = getUint16 32 (blob_bytes wav)"

definition wav_bitsPerSample :: "Blob \<Rightarrow> int" where
  "wav_bitsPerSample wav = getUint16 34 (blob_bytes wav)"

definition wav_dataSize :: "Blob \<Rightarrow> int" where
  "wav_dataSize wav = getUint32 40 (blob_bytes wav)"

definition wav_sampleCount :: "Blob \<Rightarrow> int" where
  "wav_sampleCount wav = wav_dataSize wav div 2"

definition wav_sample :: "nat \<Rightarrow> Blob \<Rightarrow> int" where
  "wav_sample i wav = getInt16 (44 + 2 * i) (blob_bytes wav)"

text \<open>
  The bytes \<open>pcmToWav\<close> is shown to produce, written as one list: the little-endian
  bytes of each field in order, then two bytes per sample.
\<close>

definition char_byte :: "char \<Rightarrow> byte" where
  "char_byte c = word_of_int (of_char c)"

definition le16 :: "int \<Rightarrow> byte list" where
  "le16 v = [word_of_int v, word_of_int (v div 256)]"

definition le32 :: "int \<Rightarrow> byte list" where
  "le32 v = [word_of_int v, word_of_int (v div 256), word_of_int (v div 65536),
             word_of_int (v div 16777216)]"

definition wav_header :: "nat \<Rightarrow> int \<Rightarrow> byte list" where
  "wav_header dataBytes sampleRate =
     map char_byte ''RIFF'' @ le32 (36 + int dataBytes) @ map char_byte ''WAVE''
     @ map char_byte ''fmt '' @ le32 16 @ le16 1 @ le16 1 @ le32 sampleRate
     @ le32 (sampleRate * 1 * 2) @ le16 (1 * 2) @ le16 (2 * 8)
     @ map char_byte ''data'' @ le32 (int dataBytes)"

definition wav_bytes :: "16 word list \<Rightarrow> int \<Rightarrow> byte list" where
  "wav_bytes pcm16 sampleRate =
     wav_header (2 * length pcm16) sampleRate @ concat (map (\<lambda>w. le16 (sint w)) pcm16)"

section \<open>JavaScript values: errors, strings, numbers\<close>

text \<open>A thrown value: the constructor is the error's name, the string its \<open>message\<close>.\<close>

datatype js_error =
    Error string
  | TypeError string
  | SyntaxError string
  | RangeError string
  | InvalidCharacterError string

fun message_of :: "js_error \<Rightarrow> string" where
  "message_of (Error m) = m"
| "message_of (TypeError m) = m"
| "message_of (SyntaxError m) = m"
| "message_of (RangeError m) = m"
| "message_of (InvalidCharacterError m) = m"

text \<open>
  The message of the \<open>TypeError\<close> that reading property \<open>p\<close> of \<open>null\<close> or
  \<open>undefined\<close> throws (the wording of V8).
\<close>

definition cannot_read :: "string \<Rightarrow> string \<Rightarrow> string" where
  "cannot_read what p =
     ''Cannot read properties of '' @ what @ '' (reading '' @ [CHR 0x27] @ p @ [CHR 0x27] @ '')''"

text \<open>\<open>a || b\<close> on a possibly undefined string: the empty string is falsy.\<close>

definition truthy :: "string option \<Rightarrow> bool" where
  "truthy x = (case x of None \<Rightarrow> False | Some t \<Rightarrow> t \<noteq> [])"

definition or_string :: "string option \<Rightarrow> string \<Rightarrow> string" where
  "or_string x d = (case x of None \<Rightarrow> d | Some t \<Rightarrow> if t \<noteq> [] then t else d)"

definition startsWith :: "string \<Rightarrow> string \<Rightarrow> bool" where
  "startsWith s p = (take (length p) s = p)"

fun str_includes :: "string \<Rightarrow> string \<Rightarrow> bool" where
  "str_includes [] sub = (sub = [])"
| "str_includes (c # cs) sub = (startsWith (c # cs) sub \<or> str_includes cs sub)"

text \<open>Decimal digits of a non-negative integer, as template literals print it.\<close>

definition digit_char :: "int \<Rightarrow> char" where
  "digit_char d = ''0123456789'' ! nat d"

function digits :: "int \<Rightarrow> string" where
  "digits n = (if n < 10 then [digit_char n] else digits (n div 10) @ [digit_char (n mod 10)])"
  by pat_completeness auto
termination
  by (relation "measure nat") auto

declare digits.simps [simp del]

text \<open>
  A finite JavaScript number is the rational it denotes. \<open>fl\<close> rounds a rational to the
  nearest binary64 value, ties to even (53 significant bits, subnormals below
  \<open>2^-1022\<close>); overflow to \<open>Infinity\<close> and \<open>NaN\<close> are outside the model.
  \<open>bitlen a\<close> is the number of binary digits of \<open>a\<close>, \<open>ilog2 q\<close> the exponent \<open>e\<close>
  with \<open>2^e \<le> q < 2^(e+1)\<close> for \<open>q > 0\<close>.
\<close>

function bitlen :: "int \<Rightarrow> int" where
  "bitlen a = (if a \<le> 0 then 0 else 1 + bitlen (a div 2))"
  by pat_completeness auto
termination
  by (relation "measure nat") auto

declare bitlen.simps [simp del]

definition pow2 :: "int \<Rightarrow> rat" where
  "pow2 e = (if 0 \<le> e then 2 ^ nat e else 1 / 2 ^ nat (- e))"

definition ilog2 :: "rat \<Rightarrow> int" where
  "ilog2 q = (let (a, b) = quotient_of q; k = bitlen a - bitlen b
              in if pow2 k \<le> q then k else k - 1)"

definition round_half_even :: "rat \<Rightarrow> int" where
  "round_half_even q =
     (let f = \<lfloor>q\<rfloor>; d = q - of_int f
      in if d < 1 / 2 then f else if 1 / 2 < d then f + 1 else if even f then f else f + 1)"

definition fl :: "rat \<Rightarrow> rat" where
  "fl q = (if q = 0 then 0
           else let e = max (ilog2 \<bar>q\<bar>) (- 1022); ulp = pow2 (e - 52)
                in of_int (round_half_even (q / ulp)) * ulp)"

definition js_times :: "rat \<Rightarrow> rat \<Rightarrow> rat" where
  "js_times a b = fl (a * b)"

definition js_divide :: "rat \<Rightarrow> rat \<Rightarrow> rat" where
  "js_divide a b = fl (a / b)"

text \<open>\<open>Math.round\<close>: the nearest integer, ties towards plus infinity.\<close>

definition Math_round :: "rat \<Rightarrow> rat" where
  "Math_round x = of_int \<lfloor>x + 1 / 2\<rfloor>"

text \<open>
  \<open>x.toFixed(f)\<close> for \<open>\<bar>x\<bar> < 10^21\<close>: the integer \<open>n\<close> nearest to \<open>\<bar>x\<bar> * 10^f\<close>, the
  larger one of two; its digits, padded with zeros to \<open>f + 1\<close> places, with the point
  before the last \<open>f\<close>.
\<close>

definition toFixed :: "nat \<Rightarrow> rat \<Rightarrow> string" where
  "toFixed f x =
     (let s = (if x < 0 then ''-'' else []);
          n = \<lfloor>\<bar>x\<bar> * 10 ^ f + 1 / 2\<rfloor>;
          m = digits n;
          m = (if f \<noteq> 0
               then (let m = (if length m \<le> f then replicate (f + 1 - length m) CHR ''0'' @ m
                              else m);
                         k = length m
                     in take (k - f) m @ ''.'' @ drop (k - f) m)
               else m)
      in s @ m)"

text \<open>\<open>x || 0\<close> on a possibly undefined number.\<close>

definition or_0 :: "rat option \<Rightarrow> rat" where
  "or_0 x = (case x of None \<Rightarrow> 0 | Some n \<Rightarrow> if n \<noteq> 0 then n else 0)"

section \<open>Configuration of the two components\<close>

text \<open>
  \<open>src/App.jsx\<close> holds two variants of the component, one after the other, each with
  its own constants and its own copies of the functions: \<open>First\<close> (model
  \<open>gemini-2.0-flash-exp\<close>) and \<open>Second\<close> (models \<open>gemini-2.5-flash-preview-*\<close>).
  A function that differs between them takes the variant as its first argument.
  \<open>GEMINI_API_KEY\<close> is a constant of the source; it is an argument \<open>key\<close> here, so that
  the check for a missing key can be stated.
\<close>

datatype variant = First | Second

definition MAX_RETRIES :: "variant \<Rightarrow> nat" where
  "MAX_RETRIES v = (case v of First \<Rightarrow> 3 | Second \<Rightarrow> 5)"

definition INR_PER_USD :: rat where
  "INR_PER_USD = 83"

definition MODEL_NAME :: string where
  "MODEL_NAME = ''gemini-2.0-flash-exp''"

definition API_URL :: "string \<Rightarrow> string" where
  "API_URL key = ''https://generativelanguage.googleapis.com/v1beta/models/'' @ MODEL_NAME
     @ '':generateContent?key='' @ key"

definition API_URL_GEMINI :: "string \<Rightarrow> string" where
  "API_URL_GEMINI key = ''https://generativelanguage.googleapis.com/v1beta/models/gemini-2.5-flash-preview-05-20:generateContent?key='' @ key"

definition API_URL_TTS :: "string \<Rightarrow> string" where
  "API_URL_TTS key = ''https://generativelanguage.googleapis.com/v1beta/models/gemini-2.5-flash-preview-tts:generateContent?key='' @ key"

definition classification_url :: "variant \<Rightarrow> string \<Rightarrow> string" where
  "classification_url v key = (case v of First \<Rightarrow> API_URL key | Second \<Rightarrow> API_URL_GEMINI key)"

definition speech_url :: "variant \<Rightarrow> string \<Rightarrow> string" where
  "speech_url v key = (case v of First \<Rightarrow> API_URL key | Second \<Rightarrow> API_URL_TTS key)"

text \<open>
  \<open>VOICE_CONFIGS\<close>: language code to voice name. The labels of the source only enter
  the prompt text, which the model does not represent.
\<close>

definition VOICE_CONFIGS :: "variant \<Rightarrow> (string \<times> string) list" where
  "VOICE_CONFIGS v =
     (case v of
        First \<Rightarrow> [(''en-US'', ''Kore''), (''hi-IN'', ''Puck''), (''es-US'', ''Fenrir''),
                  (''fr-FR'', ''Kore'')]
      | Second \<Rightarrow> [(''en-US'', ''Kore''), (''hi-IN'', ''Achird''), (''es-US'', ''Callirrhoe''),
                   (''fr-FR'', ''Umbriel'')])"

section \<open>\<open>fetchWithRetry\<close>\<close>

text \<open>
  What the program does to the world, in order: HTTP requests, timer waits (in
  milliseconds) and the playback resources of the speech flow.
\<close>

datatype effect =
    Fetch string
  | Sleep nat
  | CreateObjectURL Blob
  | NewAudio
  | Play
  | Pause

text \<open>
  What one call of \<open>fetch\<close> meets. \<open>Rejected m\<close>: the promise rejects (a transport-level
  failure before a response arrives, a \<open>TypeError\<close> with message \<open>m\<close>). \<open>Responded r\<close>: a
  response with its status, status text and what \<open>response.json()\<close> gives: \<open>Inl e\<close> when
  that promise rejects (with a \<open>TypeError\<close> when the connection is lost while the body is
  read, with a \<open>SyntaxError\<close> when the body is not JSON), else the parsed value, \<open>null\<close>
  or an object. Of an object the model keeps \<open>error_message\<close>, the value of
  \<open>errorBody.error?.message\<close> (\<open>None\<close> for \<open>undefined\<close>), and \<open>content\<close>, what the
  caller reads from it. \<open>response.ok\<close> holds for a status from 200 to 299.
\<close>

datatype 'a json = JsonNull | JsonObject 'a

datatype 'a body = Body (error_message: "string option") (content: 'a)

datatype 'a response =
  Response (status: nat) (statusText: string) (json_body: "js_error + 'a body json")

datatype 'a fetched = Rejected string | Responded "'a response"

definition ok :: "'a response \<Rightarrow> bool" where
  "ok response = (200 \<le> status response \<and> status response \<le> 299)"

text \<open>
  The check before the \<open>try\<close> block: \<open>!GEMINI_API_KEY\<close> in the first variant,
  \<open>!GEMINI_API_KEY && url.includes('key=')\<close> in the second.
\<close>

definition key_missing :: "variant \<Rightarrow> string \<Rightarrow> string \<Rightarrow> bool" where
  "key_missing v key url =
     (case v of First \<Rightarrow> key = [] | Second \<Rightarrow> key = [] \<and> str_includes url ''key='')"

definition missing_key_message :: "variant \<Rightarrow> string" where
  "missing_key_message v =
     (case v of
        First \<Rightarrow> ''Missing API Key.''
      | Second \<Rightarrow> ''Missing API Key. Please update the GEMINI_API_KEY constant in the code.'')"

text \<open>The statuses that the \<open>if\<close> inside \<open>!response.ok\<close> retries.\<close>

definition retry_status :: "variant \<Rightarrow> nat \<Rightarrow> bool" where
  "retry_status v st = (case v of First \<Rightarrow> st = 429 \<or> st = 503 | Second \<Rightarrow> st = 429)"

text \<open>
  The error thrown by
  \<open>throw new Error(`API Error ${response.status}: ${errorBody.error?.message || ...}`)\<close>;
  building the message throws a \<open>TypeError\<close> instead when \<open>errorBody\<close> is \<open>null\<close>.
\<close>

definition api_error :: "variant \<Rightarrow> 'a response \<Rightarrow> 'a body json \<Rightarrow> js_error" where
  "api_error v response errorBody =
     (case errorBody of
        JsonNull \<Rightarrow> TypeError (cannot_read ''null'' ''error'')
      | JsonObject b \<Rightarrow>
          Error (''API Error '' @ digits (int (status response)) @ '': ''
                 @ or_string (error_message b)
                     (case v of First \<Rightarrow> statusText response | Second \<Rightarrow> ''Unknown error'')))"

text \<open>
  The \<open>try\<close> block up to its first decision: it returns \<open>response.json()\<close> (a promise
  that is not awaited inside the block, so its rejection is not caught), or it has a
  non-success response with a parsed body in hand, or an exception was thrown by
  \<open>fetch\<close> or by \<open>response.json()\<close> of the error body.
\<close>

datatype 'a attempt =
    Returns "js_error + 'a body json"
  | Refused "'a response" "'a body json"
  | Throws js_error

definition try_block :: "'a fetched \<Rightarrow> 'a attempt" where
  "try_block fetched =
     (case fetched of
        Rejected m \<Rightarrow> Throws (TypeError m)
      | Responded response \<Rightarrow>
          if \<not> ok response
          then (case json_body response of
                  Inl e \<Rightarrow> Throws e
                | Inr errorBody \<Rightarrow> Refused response errorBody)
          else (case json_body response of
                  Inl e \<Rightarrow> Returns (Inl e)
                | Inr parsed \<Rightarrow> Returns (Inr parsed)))"

text \<open>
  \<open>fetchWithRetry(url, payload, retries)\<close>. \<open>net k\<close> is what the call of \<open>fetch\<close> made
  with \<open>retries = k\<close> meets; the payload does not influence the control flow and is
  left out. The result is the value the promise settles with (\<open>Inl\<close>: rejected) and the
  effects in order. The \<open>throw\<close> of the API error stands inside the \<open>try\<close> block, so it
  is handled by the \<open>catch\<close> block of the same call, like every other exception.
\<close>

function fetchWithRetry ::
  "variant \<Rightarrow> string \<Rightarrow> (nat \<Rightarrow> 'a fetched) \<Rightarrow> string \<Rightarrow> nat \<Rightarrow> (js_error + 'a body json) \<times> effect list"
where
  "fetchWithRetry v key net url retries =
     (let delay = 2 ^ retries * 1000 in
      if key_missing v key url then (Inl (Error (missing_key_message v)), [])
      else
        (case try_block (net retries) of
           Returns r \<Rightarrow> (r, [Fetch url])
         | Refused response errorBody \<Rightarrow>
             if retry_status v (status response) \<and> retries < MAX_RETRIES v
             then (case fetchWithRetry v key net url (retries + 1) of
                     (r, effs) \<Rightarrow> (r, Fetch url # Sleep delay # effs))
             else
               (let error = api_error v response errorBody in
                if retries < MAX_RETRIES v
                then (case fetchWithRetry v key net url (retries + 1) of
                        (r, effs) \<Rightarrow> (r, Fetch url # Sleep delay # effs))
                else (Inl (Error (''Failed after '' @ digits (int (MAX_RETRIES v))
                                   @ '' attempts: '' @ message_of error)), [Fetch url]))
         | Throws error \<Rightarrow>
             if retries < MAX_RETRIES v
             then (case fetchWithRetry v key net url (retries + 1) of
                     (r, effs) \<Rightarrow> (r, Fetch url # Sleep delay # effs))
             else (Inl (Error (''Failed after '' @ digits (int (MAX_RETRIES v))
                                @ '' attempts: '' @ message_of error)), [Fetch url])))"
  by pat_completeness auto
termination
  by (relation "measure (\<lambda>(v, key, net, url, retries). MAX_RETRIES v - retries)") auto

declare fetchWithRetry.simps [simp del]

section \<open>Component state\<close>

text \<open>
  \<open>prediction\<close>: the object passed to \<open>setPrediction\<close>. \<open>None\<close> in a field is
  \<open>undefined\<close>. (The field \<open>objectName\<close> of the source is \<open>p_objectName\<close> here, the
  name being taken by the response record below.)
\<close>

record prediction =
  p_objectName :: "string option"
  category :: "string option"
  valueINR :: string
  weightKg :: rat
  message :: "string option"

text \<open>
  An \<open>Audio\<close> element: the blob behind its object URL, and its \<open>paused\<close> attribute.
\<close>

record audio =
  src :: Blob
  paused :: bool

text \<open>
  The state hooks and refs of \<open>App\<close> that the two flows read and write, and the
  effects performed so far.
\<close>

record app_state =
  prediction :: "prediction option"
  error :: "string option"
  isLoading :: bool
  selectedLanguageCode :: string
  isAudioGenerating :: bool
  isAudioPlaying :: bool
  audioRef :: "audio option"
  effects :: "effect list"

definition initial_state :: app_state where
  "initial_state =
     \<lparr>prediction = None, error = None, isLoading = False, selectedLanguageCode = ''en-US'',
      isAudioGenerating = False, isAudioPlaying = False, audioRef = None, effects = []\<rparr>"

section \<open>Classification: \<open>classifyWaste\<close>, \<open>analyzeWaste\<close>, \<open>renderPredictionBox\<close>\<close>

text \<open>
  The object that \<open>JSON.parse\<close> of the reply text gives, as far as \<open>analyzeWaste\<close>
  reads it: each field of the response schema, \<open>None\<close> when the key is absent. A field
  that is present has the type the schema gives it.
\<close>

record classification =
  objectName :: "string option"
  material :: "string option"
  estimatedValueUSD :: "rat option"
  estimatedWeightKg :: "rat option"
  disposalInstructions :: "string option"

text \<open>
  \<open>classifyWaste(base64, languageCode)\<close>. The \<open>content\<close> of the response is the value
  of \<open>candidate.content?.parts?.[0]?.text\<close> for \<open>candidate = response.candidates?.[0]\<close>,
  \<open>None\<close> when a link of the chain is missing. \<open>JSON_parse\<close> is the platform's
  \<open>JSON.parse\<close> on reply texts: \<open>None\<close> when it throws, else \<open>null\<close> or the object.
\<close>

definition classifyWaste ::
  "variant \<Rightarrow> string \<Rightarrow> (string \<Rightarrow> classification json option) \<Rightarrow> (nat \<Rightarrow> string option fetched)
     \<Rightarrow> string \<Rightarrow> string \<Rightarrow> (js_error + classification json) \<times> effect list"
where
  "classifyWaste v key JSON_parse net base64 languageCode =
     (case map_of (VOICE_CONFIGS v) languageCode of
        None \<Rightarrow> (Inl (TypeError (cannot_read ''undefined'' ''label'')), [])
      | Some voiceConfig \<Rightarrow>
          (case fetchWithRetry v key net (classification_url v key) 0 of
             (Inl e, effs) \<Rightarrow> (Inl e, effs)
           | (Inr JsonNull, effs) \<Rightarrow> (Inl (TypeError (cannot_read ''null'' ''candidates'')), effs)
           | (Inr (JsonObject response), effs) \<Rightarrow>
               (case content response of
                  None \<Rightarrow> (Inl (Error ''AI classification failed to return content.''), effs)
                | Some text \<Rightarrow>
                    if text \<noteq> []
                    then (case JSON_parse text of
                            None \<Rightarrow> (Inl (Error ''Could not interpret AI classification data.''), effs)
                          | Some result \<Rightarrow> (Inr result, effs))
                    else (Inl (Error ''AI classification failed to return content.''), effs))))"

text \<open>
  The body of the \<open>try\<close> block of \<open>analyzeWaste\<close> after \<open>await classifyWaste(...)\<close>:
  the prediction computed from \<open>result\<close>.
\<close>

definition to_prediction :: "classification \<Rightarrow> prediction" where
  "to_prediction result =
     (let estimatedValueINR =
            js_divide (Math_round (js_times (js_times (or_0 (estimatedValueUSD result)) INR_PER_USD) 100)) 100;
          estimatedWeight = or_0 (estimatedWeightKg result)
      in \<lparr>p_objectName = objectName result,
          category = material result,
          valueINR = toFixed 2 estimatedValueINR,
          weightKg = estimatedWeight,
          message = disposalInstructions result\<rparr>)"

definition analysis_failed :: "variant \<Rightarrow> string" where
  "analysis_failed v =
     (case v of
        First \<Rightarrow> ''Failed to analyze image.''
      | Second \<Rightarrow> ''Failed to analyze image using Gemini API. Check your API key or network.'')"

definition analyzeWaste ::
  "variant \<Rightarrow> string \<Rightarrow> (string \<Rightarrow> classification json option) \<Rightarrow> (nat \<Rightarrow> string option fetched)
     \<Rightarrow> string \<Rightarrow> string \<Rightarrow> app_state \<Rightarrow> app_state"
where
  "analyzeWaste v key JSON_parse net base64 languageCode s =
     (if base64 = []
      then s\<lparr>error := Some ''Image data missing. Please capture or upload an image.''\<rparr>
      else
        (let s = s\<lparr>isLoading := True, error := None, prediction := None\<rparr>;
             (r, effs) = classifyWaste v key JSON_parse net base64 languageCode;
             s = s\<lparr>effects := effects s @ effs\<rparr>;
             s = (case r of
                    Inr (JsonObject result) \<Rightarrow> s\<lparr>prediction := Some (to_prediction result)\<rparr>
                  | Inr JsonNull \<Rightarrow>
                      s\<lparr>error := Some (or_string (Some (cannot_read ''null'' ''estimatedValueUSD''))
                                             (analysis_failed v))\<rparr>
                  | Inl err \<Rightarrow>
                      s\<lparr>error := Some (or_string (Some (message_of err)) (analysis_failed v))\<rparr>)
         in s\<lparr>isLoading := False\<rparr>))"

text \<open>
  \<open>displayWeight\<close> of \<open>renderPredictionBox\<close>. \<open>parseFloat(prediction.weightKg || 0)\<close>
  gives the number \<open>weightKg\<close> back; \<open>0.1\<close> is the binary64 value nearest to one tenth.
\<close>

definition displayWeight :: "variant \<Rightarrow> prediction \<Rightarrow> string" where
  "displayWeight v p =
     (let weightValue = weightKg p in
      case v of
        First \<Rightarrow>
          if weightValue = 0 then ''None detectable''
          else if weightValue < fl (1 / 10) then toFixed 0 (js_times weightValue 1000) @ ''g''
          else toFixed 2 weightValue @ '' kg''
      | Second \<Rightarrow>
          if weightValue = 0 then ''None detectable''
          else if 0 < weightValue \<and> weightValue < fl (1 / 10)
          then toFixed 0 (js_times weightValue 1000) @ '' grams''
          else toFixed 2 weightValue @ '' kg'')"

section \<open>Speech: \<open>base64ToArrayBuffer\<close>, \<open>generateAndPlayAudio\<close>, \<open>handleAudioButtonClick\<close>\<close>

text \<open>
  \<open>atob\<close>, the platform's forgiving base64 decoder: ASCII whitespace is dropped, one
  or two trailing \<open>=\<close> are dropped when the length is a multiple of 4, a remaining
  length of 1 modulo 4 or a character outside the alphabet is an
  \<open>InvalidCharacterError\<close> (\<open>None\<close>), leftover bits are discarded. The result is a
  binary string, one character per byte.
\<close>

definition b64_index :: "char \<Rightarrow> nat option" where
  "b64_index c =
     (let n = of_char c :: nat in
      if 65 \<le> n \<and> n \<le> 90 then Some (n - 65)
      else if 97 \<le> n \<and> n \<le> 122 then Some (n - 71)
      else if 48 \<le> n \<and> n \<le> 57 then Some (n + 4)
      else if n = 43 then Some 62
      else if n = 47 then Some 63
      else None)"

fun b64_groups :: "nat list \<Rightarrow> nat list" where
  "b64_groups (a # b # c # d # rest) =
     (a * 4 + b div 16) # (b mod 16 * 16 + c div 4) # (c mod 4 * 64 + d) # b64_groups rest"
| "b64_groups [a, b, c] = [a * 4 + b div 16, b mod 16 * 16 + c div 4]"
| "b64_groups [a, b] = [a * 4 + b div 16]"
| "b64_groups _ = []"

definition strip_padding :: "string \<Rightarrow> string" where
  "strip_padding d =
     (if length d mod 4 = 0
      then (if 2 \<le> length d \<and> drop (length d - 2) d = ''==''  then take (length d - 2) d
            else if 1 \<le> length d \<and> drop (length d - 1) d = ''='' then take (length d - 1) d
            else d)
      else d)"

definition atob :: "string \<Rightarrow> string option" where
  "atob base64 =
     (let d = strip_padding (filter (\<lambda>c. (of_char c :: nat) \<notin> {9, 10, 12, 13, 32}) base64) in
      if length d mod 4 = 1 then None
      else (case those (map b64_index d) of
              None \<Rightarrow> None
            | Some sextets \<Rightarrow> Some (map char_of (b64_groups sextets))))"

text \<open>
  \<open>base64ToArrayBuffer\<close>: the loop \<open>bytes[i] = binaryString.charCodeAt(i)\<close> over the
  decoded string is a \<open>map\<close>.
\<close>

definition base64ToArrayBuffer :: "string \<Rightarrow> js_error + byte list" where
  "base64ToArrayBuffer base64 =
     (case atob base64 of
        None \<Rightarrow> Inl (InvalidCharacterError ''The string to be decoded is not correctly encoded.'')
      | Some binaryString \<Rightarrow> Inr (map (\<lambda>c. word_of_int (of_char c)) binaryString))"

text \<open>
  \<open>new Int16Array(buffer)\<close>: a \<open>RangeError\<close> when the byte length is not a multiple of
  2, else the elements, two bytes each, low byte first (the byte order of the
  platforms browsers run on).
\<close>

fun int16_elements :: "byte list \<Rightarrow> 16 word list" where
  "int16_elements (lo # hi # rest) = word_cat hi lo # int16_elements rest"
| "int16_elements _ = []"

definition new_Int16Array :: "byte list \<Rightarrow> js_error + 16 word list" where
  "new_Int16Array buffer =
     (if length buffer mod 2 \<noteq> 0
      then Inl (RangeError ''byte length of Int16Array should be a multiple of 2'')
      else Inr (int16_elements buffer))"

text \<open>
  \<open>mimeType.match(/rate=(\d+)/)\<close>: the first capture group of the leftmost match,
  \<open>None\<close> when there is none; and \<open>parseInt(digits, 10)\<close> on a string of digits.
\<close>

definition is_digit :: "char \<Rightarrow> bool" where
  "is_digit c = (48 \<le> (of_char c :: nat) \<and> (of_char c :: nat) \<le> 57)"

fun match_rate :: "string \<Rightarrow> string option" where
  "match_rate [] = None"
| "match_rate (c # cs) =
     (if startsWith (c # cs) ''rate='' \<and> takeWhile is_digit (drop 5 (c # cs)) \<noteq> []
      then Some (takeWhile is_digit (drop 5 (c # cs)))
      else match_rate cs)"

definition parseInt :: "string \<Rightarrow> int" where
  "parseInt ds = foldl (\<lambda>n d. 10 * n + (of_char d - 48)) 0 ds"

text \<open>
  \<open>audioRef.current.pause()\<close>. On an element that is playing it sets \<open>paused\<close> and the
  element fires \<open>pause\<close>, whose handler \<open>onpause\<close> is \<open>setIsAudioPlaying(false)\<close>; the
  browser runs the handler as a task of its own right after the caller, which the model
  takes as done at once. On a paused element nothing happens.
\<close>

definition pause :: "app_state \<Rightarrow> app_state" where
  "pause s =
     (case audioRef s of
        None \<Rightarrow> s
      | Some a \<Rightarrow>
          if paused a then s\<lparr>effects := effects s @ [Pause]\<rparr>
          else s\<lparr>audioRef := Some (a\<lparr>paused := True\<rparr>), isAudioPlaying := False,
                 effects := effects s @ [Pause]\<rparr>)"

text \<open>
  \<open>audioRef.current.play()\<close>. \<open>mayPlay\<close>: whether the browser allows playback to start;
  if not, the promise rejects, which only the second variant handles.
\<close>

definition play :: "variant \<Rightarrow> bool \<Rightarrow> app_state \<Rightarrow> app_state" where
  "play v mayPlay s =
     (case audioRef s of
        None \<Rightarrow> s
      | Some a \<Rightarrow>
          if mayPlay
          then s\<lparr>audioRef := Some (a\<lparr>paused := False\<rparr>), effects := effects s @ [Play]\<rparr>
          else (case v of
                  First \<Rightarrow> s\<lparr>effects := effects s @ [Play]\<rparr>
                | Second \<Rightarrow>
                    s\<lparr>error := Some ''Playback failed. Ensure your browser is not blocking media autoplay.'',
                      isAudioPlaying := False, effects := effects s @ [Play]\<rparr>))"

text \<open>
  The part of \<open>inlineData\<close> of the first part of the first candidate that the speech
  flow reads: \<open>part?.inlineData?.data\<close> and \<open>part?.inlineData?.mimeType\<close>.
\<close>

record inlineData =
  data :: "string option"
  mimeType :: "string option"

text \<open>
  From \<open>base64ToArrayBuffer\<close> to \<open>audioRef.current.play()\<close>, the same lines in both
  variants; the result is the exception thrown, if any.
\<close>

definition build_and_play ::
  "variant \<Rightarrow> bool \<Rightarrow> string \<Rightarrow> int \<Rightarrow> app_state \<Rightarrow> js_error option \<times> app_state"
where
  "build_and_play v mayPlay audioData sampleRate s =
     (case base64ToArrayBuffer audioData of
        Inl e \<Rightarrow> (Some e, s)
      | Inr pcmDataBuffer \<Rightarrow>
          (case new_Int16Array pcmDataBuffer of
             Inl e \<Rightarrow> (Some e, s)
           | Inr pcm16 \<Rightarrow>
               (case pcmToWav pcm16 sampleRate of
                  None \<Rightarrow> (Some (RangeError ''Offset is outside the bounds of the DataView''), s)
                | Some wavBlob \<Rightarrow>
                    (let s = s\<lparr>effects := effects s @ [CreateObjectURL wavBlob, NewAudio],
                               audioRef := Some \<lparr>src = wavBlob, paused = True\<rparr>\<rparr>;
                         s = s\<lparr>isAudioGenerating := False, isAudioPlaying := True\<rparr>
                     in (None, play v mayPlay s)))))"

text \<open>The \<open>try\<close> block of \<open>generateAndPlayAudio\<close>.\<close>

definition speech_try ::
  "variant \<Rightarrow> string \<Rightarrow> bool \<Rightarrow> (nat \<Rightarrow> inlineData fetched) \<Rightarrow> app_state
     \<Rightarrow> js_error option \<times> app_state"
where
  "speech_try v key mayPlay net s =
     (case map_of (VOICE_CONFIGS v) (selectedLanguageCode s) of
        None \<Rightarrow> (Some (TypeError (cannot_read ''undefined'' ''name'')), s)
      | Some voiceName \<Rightarrow>
          (case fetchWithRetry v key net (speech_url v key) 0 of
             (r, effs) \<Rightarrow>
               (let s = s\<lparr>effects := effects s @ effs\<rparr> in
                case r of
                  Inl e \<Rightarrow> (Some e, s)
                | Inr response \<Rightarrow>
                    (let part = (case response of
                                   JsonNull \<Rightarrow> \<lparr>data = None, mimeType = None\<rparr>
                                 | JsonObject b \<Rightarrow> content b)
                     in case v of
                          First \<Rightarrow>
                            (case data part of
                               None \<Rightarrow> (Some (Error ''API failed to return audio data.''), s)
                             | Some audioData \<Rightarrow>
                                 if audioData \<noteq> []
                                 then (let sampleRate = 24000
                                       in build_and_play v mayPlay audioData sampleRate s)
                                 else (Some (Error ''API failed to return audio data.''), s))
                        | Second \<Rightarrow>
                            (case (data part, mimeType part) of
                               (Some audioData, Some mime) \<Rightarrow>
                                 if audioData \<noteq> [] \<and> mime \<noteq> [] \<and> startsWith mime ''audio/''
                                 then (case match_rate mime of
                                         None \<Rightarrow>
                                           (Some (Error ''Sample rate information missing from TTS mimeType.''), s)
                                       | Some rate \<Rightarrow>
                                           build_and_play v mayPlay audioData (parseInt rate) s)
                                 else (Some (Error ''TTS API failed to return audio data.''), s)
                             | _ \<Rightarrow> (Some (Error ''TTS API failed to return audio data.''), s))))))"

definition generateAndPlayAudio ::
  "variant \<Rightarrow> string \<Rightarrow> bool \<Rightarrow> (nat \<Rightarrow> inlineData fetched) \<Rightarrow> string option \<Rightarrow> app_state
     \<Rightarrow> app_state"
where
  "generateAndPlayAudio v key mayPlay net text s =
     (if \<not> truthy text then s\<lparr>error := Some ''No instructions to play.''\<rparr>
      else if isAudioPlaying s \<and> audioRef s \<noteq> None then pause s
      else
        (let s = s\<lparr>isAudioGenerating := True, isAudioPlaying := False\<rparr>;
             s = (if audioRef s \<noteq> None then pause s else s);
             s = (case speech_try v key mayPlay net s of
                    (None, s) \<Rightarrow> s
                  | (Some err, s) \<Rightarrow>
                      (case v of
                         First \<Rightarrow>
                           s\<lparr>error := Some (''Voice generation unavailable. '' @ message_of err)\<rparr>
                       | Second \<Rightarrow>
                           s\<lparr>error := Some (or_string (Some (message_of err))
                                                  ''Could not generate voice instructions.'')\<rparr>))
         in s\<lparr>isAudioGenerating := False\<rparr>))"

text \<open>
  \<open>handleAudioButtonClick\<close> of \<open>renderPredictionBox\<close>; \<open>msg\<close> is its \<open>message\<close>, the
  \<open>prediction.message\<close> of the rendered prediction.
\<close>

definition handleAudioButtonClick ::
  "variant \<Rightarrow> string \<Rightarrow> bool \<Rightarrow> (nat \<Rightarrow> inlineData fetched) \<Rightarrow> string option \<Rightarrow> app_state
     \<Rightarrow> app_state"
where
  "handleAudioButtonClick v key mayPlay net msg s =
     (if isAudioPlaying s \<and> audioRef s \<noteq> None then pause s
      else generateAndPlayAudio v key mayPlay net msg s)"

text \<open>
  The states of the playback state machine of the design, read off the component state
  the way the component reads it: \<open>Playing\<close> when a play request is taken as a stop
  request (the test \<open>isAudioPlaying && audioRef.current\<close> of \<open>generateAndPlayAudio\<close> and
  \<open>handleAudioButtonClick\<close>; the button then reads \<open>Stop\<close>), else \<open>Generating\<close> while
  \<open>isAudioGenerating\<close> is set, \<open>Idle\<close> otherwise. Whether the element does play is its
  attribute \<open>paused\<close>, which the component never reads.
\<close>

datatype phase = Idle | Generating | Playing

definition phase :: "app_state \<Rightarrow> phase" where
  "phase s =
     (if isAudioPlaying s \<and> audioRef s \<noteq> None then Playing
      else if isAudioGenerating s then Generating
      else Idle)"

section \<open>Notions used to state the properties\<close>



text \<open>
  The error that the \<open>catch\<close> block of \<open>fetchWithRetry\<close> receives from an attempt that
  is not retried by the status check (\<open>None\<close> when the attempt returns).
\<close>

definition caught :: "variant \<Rightarrow> 'a fetched \<Rightarrow> js_error option" where
  "caught v fetched =
     (case try_block fetched of
        Returns r \<Rightarrow> None
      | Refused response errorBody \<Rightarrow> Some (api_error v response errorBody)
      | Throws e \<Rightarrow> Some e)"


fun attempts :: "effect list \<Rightarrow> nat" where
  "attempts [] = 0"
| "attempts (Fetch u # effs) = Suc (attempts effs)"
| "attempts (e # effs) = attempts effs"


text \<open>The effects that create or start a playback resource.\<close>

fun playback_effects :: "effect list \<Rightarrow> effect list" where
  "playback_effects [] = []"
| "playback_effects (CreateObjectURL b # effs) = CreateObjectURL b # playback_effects effs"
| "playback_effects (NewAudio # effs) = NewAudio # playback_effects effs"
| "playback_effects (Play # effs) = Play # playback_effects effs"
| "playback_effects (e # effs) = playback_effects effs"

text \<open>
  \<open>part?.inlineData?.mimeType\<close> read the way the second variant reads it. \<open>is_audio\<close>:
  the test \<open>mimeType && mimeType.startsWith("audio/")\<close>. \<open>declared_rate\<close>: the digits of
  the rate, \<open>None\<close> when the MIME type is absent, is not \<open>audio/*\<close> or holds no \<open>rate=\<close>
  followed by digits.
\<close>

definition is_audio :: "string option \<Rightarrow> bool" where
  "is_audio mime = (case mime of None \<Rightarrow> False | Some m \<Rightarrow> startsWith m ''audio/'')"

definition declared_rate :: "string option \<Rightarrow> string option" where
  "declared_rate mime =
     (case mime of
        None \<Rightarrow> None
      | Some m \<Rightarrow> if startsWith m ''audio/'' then match_rate m else None)"

text \<open>
  \<open>generateAndPlayAudio\<close> in two steps, for a call that is not taken as a stop request:
  \<open>prepared\<close> is the state in which the \<open>try\<close> block starts, \<open>settled\<close> what the
  \<open>catch\<close> and \<open>finally\<close> blocks make of the outcome of the \<open>try\<close> block.
\<close>

definition prepared :: "app_state \<Rightarrow> app_state" where
  "prepared s =
     (let s0 = s\<lparr>isAudioGenerating := True, isAudioPlaying := False\<rparr>
      in if audioRef s0 \<noteq> None then pause s0 else s0)"

definition settled :: "variant \<Rightarrow> js_error option \<times> app_state \<Rightarrow> app_state" where
  "settled v outcome =
     (case outcome of
        (None, s) \<Rightarrow> s\<lparr>isAudioGenerating := False\<rparr>
      | (Some err, s) \<Rightarrow>
          (case v of
             First \<Rightarrow>
               s\<lparr>error := Some (''Voice generation unavailable. '' @ message_of err),
                 isAudioGenerating := False\<rparr>
           | Second \<Rightarrow>
               s\<lparr>error := Some (or_string (Some (message_of err))
                                    ''Could not generate voice instructions.''),
                 isAudioGenerating := False\<rparr>))"

section \<open>Scenarios\<close>


definition always_400 :: "nat \<Rightarrow> unit fetched" where
  "always_400 k =
     Responded (Response 400 ''Bad Request''
       (Inr (JsonObject (Body (Some ''API key not valid.'') ()))))"

definition bad_request_then_ok :: "nat \<Rightarrow> unit fetched" where
  "bad_request_then_ok k =
     (if k = 0
      then Responded (Response 400 ''Bad Request''
             (Inr (JsonObject (Body (Some ''API key not valid.'') ()))))
      else Responded (Response 200 ''OK'' (Inr (JsonObject (Body None ())))))"


text \<open>
  The classification scenario of the design: the reply text, the object \<open>JSON.parse\<close>
  gives for it (a decimal literal denotes the nearest binary64 value), and a server
  that answers with this text.
\<close>

definition bottle_text :: string where
  \<open>bottle_text = ''{"objectName":"Plastic Bottle","material":"Plastic","estimatedValueUSD":0.02,"estimatedWeightKg":0.05,"disposalInstructions":"Rinse and place in recycling."}''\<close>

definition bottle :: classification where
  "bottle =
     \<lparr>objectName = Some ''Plastic Bottle'', material = Some ''Plastic'',
      estimatedValueUSD = Some (fl (2 / 100)), estimatedWeightKg = Some (fl (5 / 100)),
      disposalInstructions = Some ''Rinse and place in recycling.''\<rparr>"

text \<open>Two replies with required fields missing: \<open>{}\<close> and an object with two fields.\<close>

definition can_text :: string where
  \<open>can_text = ''{"objectName":"Can","material":"Metal"}''\<close>

definition can :: classification where
  "can =
     \<lparr>objectName = Some ''Can'', material = Some ''Metal'', estimatedValueUSD = None,
      estimatedWeightKg = None, disposalInstructions = None\<rparr>"

definition no_fields :: classification where
  "no_fields =
     \<lparr>objectName = None, material = None, estimatedValueUSD = None,
      estimatedWeightKg = None, disposalInstructions = None\<rparr>"

definition parse_scenarios :: "string \<Rightarrow> classification json option" where
  "parse_scenarios text =
     (if text = bottle_text then Some (JsonObject bottle)
      else if text = can_text then Some (JsonObject can)
      else if text = ''{}'' then Some (JsonObject no_fields)
      else if text = ''null'' then Some JsonNull
      else None)"

definition replies_with :: "'a \<Rightarrow> nat \<Rightarrow> 'a fetched" where
  "replies_with c k = Responded (Response 200 ''OK'' (Inr (JsonObject (Body None c))))"

text \<open>
  Speech replies: four bytes of PCM (the samples 1 and -2) with a rate in the MIME
  type, with a MIME type \<open>audio/*\<close> that names no rate and with a MIME type that names a
  rate and is not \<open>audio/*\<close>; and three bytes of PCM.
\<close>

definition pcm_with_rate :: inlineData where
  "pcm_with_rate = \<lparr>data = Some ''AQD+/w=='', mimeType = Some ''audio/L16;codec=pcm;rate=24000''\<rparr>"

definition pcm_without_rate :: inlineData where
  "pcm_without_rate = \<lparr>data = Some ''AQD+/w=='', mimeType = Some ''audio/L16;codec=pcm''\<rparr>"

definition pcm_not_audio :: inlineData where
  "pcm_not_audio = \<lparr>data = Some ''AQD+/w=='', mimeType = Some ''text/plain;rate=24000''\<rparr>"

definition pcm_odd :: inlineData where
  "pcm_odd = \<lparr>data = Some ''AQID'', mimeType = Some ''audio/L16;codec=pcm;rate=24000''\<rparr>"

text \<open>The state after a successful synthesis from the initial state, first variant.\<close>

definition playing_scenario :: app_state where
  "playing_scenario =
     generateAndPlayAudio First ''K'' True (replies_with pcm_with_rate)
       (Some ''Rinse and place in recycling.'') initial_state"

text \<open>
  A click of the audio button of the rendered prediction, first variant.
\<close>

definition click :: "app_state \<Rightarrow> app_state" where
  "click s =
     handleAudioButtonClick First ''K'' True (replies_with pcm_with_rate)
       (Some ''Rinse and place in recycling.'') s"

text \<open>
  The state after the same synthesis when the browser refuses to start playback (the
  promise of \<open>play()\<close> rejects), in either variant.
\<close>

definition refused_scenario :: "variant \<Rightarrow> app_state" where
  "refused_scenario v =
     generateAndPlayAudio v ''K'' False (replies_with pcm_with_rate)
       (Some ''Rinse and place in recycling.'') initial_state"

section \<open>Properties of \<open>pcmToWav\<close>\<close>

subsection \<open>Writing at the end of what has been written\<close>

lemma two_bytes: "2 \<le> length rest \<Longrightarrow> \<exists>a b r. rest = a # b # r"
  by (cases rest; cases "tl rest") auto

lemma four_bytes: "4 \<le> length rest \<Longrightarrow> \<exists>a b c d r. rest = a # b # c # d # r"
proof -
  assume len: "4 \<le> length rest"
  then obtain a b r1 where r1: "rest = a # b # r1"
    using two_bytes [of rest] by auto
  with len have "2 \<le> length r1" by simp
  then obtain c d r where "r1 = c # d # r"
    using two_bytes [of r1] by auto
  with r1 show ?thesis by simp
qed

lemma setUint8_append:
  "length pre = off \<Longrightarrow> 1 \<le> length rest \<Longrightarrow>
   setUint8 off v (pre @ rest) = Some (pre @ word_of_int v # drop 1 rest)"
  by (cases rest) (auto simp add: setUint8_def list_update_append)

lemma setUint16_append:
  assumes "length pre = off" "2 \<le> length rest"
  shows "setUint16 off v (pre @ rest) = Some (pre @ le16 v @ drop 2 rest)"
proof -
  obtain a b r where "rest = a # b # r"
    using two_bytes [OF assms(2)] by auto
  with assms(1) show ?thesis
    by (auto simp add: setUint16_def list_update_append le16_def)
qed

lemma setInt16_append:
  assumes "length pre = off" "2 \<le> length rest"
  shows "setInt16 off v (pre @ rest) = Some (pre @ le16 v @ drop 2 rest)"
proof -
  obtain a b r where "rest = a # b # r"
    using two_bytes [OF assms(2)] by auto
  with assms(1) show ?thesis
    by (auto simp add: setInt16_def list_update_append le16_def)
qed

lemma setUint32_append:
  assumes "length pre = off" "4 \<le> length rest"
  shows "setUint32 off v (pre @ rest) = Some (pre @ le32 v @ drop 4 rest)"
proof -
  obtain a b c d r where "rest = a # b # c # d # r"
    using four_bytes [OF assms(2)] by auto
  with assms(1) show ?thesis
    by (auto simp add: setUint32_def list_update_append le32_def numeral_eq_Suc)
qed

lemma writeString_loop_append:
  "length pre = offset + i \<Longrightarrow> i \<le> length string \<Longrightarrow> length string - i \<le> length rest \<Longrightarrow>
   writeString_loop (pre @ rest) offset string i =
     Some (pre @ map char_byte (drop i string) @ drop (length string - i) rest)"
proof (induction "length string - i" arbitrary: i pre rest)
  case 0
  then show ?case
    by (subst writeString_loop.simps) simp
next
  case (Suc n)
  from Suc.hyps(2) have lt: "i < length string" by simp
  with Suc.prems have rest1: "1 \<le> length rest" by simp
  have step: "setUint8 (offset + i) (of_char (string ! i)) (pre @ rest)
      = Some ((pre @ [char_byte (string ! i)]) @ drop 1 rest)"
    using setUint8_append [OF Suc.prems(1) rest1] by (simp add: char_byte_def)
  have ih: "writeString_loop ((pre @ [char_byte (string ! i)]) @ drop 1 rest) offset string (i + 1)
      = Some ((pre @ [char_byte (string ! i)]) @ map char_byte (drop (i + 1) string)
              @ drop (length string - (i + 1)) (drop 1 rest))"
    using Suc.hyps(2) Suc.prems lt by (intro Suc.hyps(1)) simp_all
  have d: "drop i string = string ! i # drop (i + 1) string"
    using lt by (simp add: Cons_nth_drop_Suc)
  have "Suc (length string - Suc i) = length string - i"
    using lt by arith
  then have e: "drop (length string - (i + 1)) (drop 1 rest) = drop (length string - i) rest"
    by simp
  show ?case
    by (subst writeString_loop.simps) (simp only: lt if_True step option.case ih d e, simp)
qed

lemma writeString_append:
  "length pre = offset \<Longrightarrow> length string = k \<Longrightarrow> k \<le> length rest \<Longrightarrow>
   writeString (pre @ rest) offset string = Some (pre @ map char_byte string @ drop k rest)"
  using writeString_loop_append [of pre offset 0 string rest] by (simp add: writeString_def)

lemma samples_loop_append:
  "length pre = dataOffset + 2 * i \<Longrightarrow> i \<le> length pcm16 \<Longrightarrow> length rest = 2 * (length pcm16 - i) \<Longrightarrow>
   samples_loop (pre @ rest) dataOffset pcm16 i =
     Some (pre @ concat (map (\<lambda>w. le16 (sint w)) (drop i pcm16)))"
proof (induction "length pcm16 - i" arbitrary: i pre rest)
  case 0
  then show ?case
    by (subst samples_loop.simps) simp
next
  case (Suc n)
  from Suc.hyps(2) have lt: "i < length pcm16" by simp
  with Suc.prems have rest2: "2 \<le> length rest" by simp
  have off: "length pre = dataOffset + i * 2" using Suc.prems(1) by simp
  have step: "setInt16 (dataOffset + i * 2) (sint (pcm16 ! i)) (pre @ rest)
      = Some ((pre @ le16 (sint (pcm16 ! i))) @ drop 2 rest)"
    using setInt16_append [OF off rest2] by simp
  have ih: "samples_loop ((pre @ le16 (sint (pcm16 ! i))) @ drop 2 rest) dataOffset pcm16 (i + 1)
      = Some ((pre @ le16 (sint (pcm16 ! i))) @ concat (map (\<lambda>w. le16 (sint w)) (drop (i + 1) pcm16)))"
    using Suc.hyps(2) Suc.prems lt by (intro Suc.hyps(1)) (simp_all add: le16_def)
  have d: "drop i pcm16 = pcm16 ! i # drop (i + 1) pcm16"
    using lt by (simp add: Cons_nth_drop_Suc)
  show ?case
    by (subst samples_loop.simps) (simp only: lt if_True step option.case ih d, simp)
qed

lemma length_le16 [simp]: "length (le16 v) = 2"
  by (simp add: le16_def)

lemma length_le32 [simp]: "length (le32 v) = 4"
  by (simp add: le32_def)

lemma length_wav_header [simp]: "length (wav_header n r) = 44"
  by (simp add: wav_header_def)

lemma write_wav_closed:
  assumes len: "length view0 = 44 + 2 * length pcm16"
  shows "write_wav view0 pcm16 r = Some (wav_bytes pcm16 r)"
proof -
  let ?B = "byteLength pcm16"
  define h1 where "h1 = map char_byte ''RIFF''"
  define h2 where "h2 = h1 @ le32 (36 + int ?B)"
  define h3 where "h3 = h2 @ map char_byte ''WAVE''"
  define h4 where "h4 = h3 @ map char_byte ''fmt ''"
  define h5 where "h5 = h4 @ le32 16"
  define h6 where "h6 = h5 @ le16 1"
  define h7 where "h7 = h6 @ le16 1"
  define h8 where "h8 = h7 @ le32 r"
  define h9 where "h9 = h8 @ le32 (r * 1 * 2)"
  define h10 where "h10 = h9 @ le16 (1 * 2)"
  define h11 where "h11 = h10 @ le16 (2 * 8)"
  define h12 where "h12 = h11 @ map char_byte ''data''"
  define h13 where "h13 = h12 @ le32 (int ?B)"
  note defs = h1_def h2_def h3_def h4_def h5_def h6_def h7_def h8_def h9_def h10_def
    h11_def h12_def h13_def
  have s1: "writeString view0 0 ''RIFF'' = Some (h1 @ drop 4 view0)"
    using writeString_append [where pre="[]" and offset=0 and k=4 and string="''RIFF''" and rest=view0] len by (simp add: h1_def)
  have s2: "setUint32 4 (36 + int ?B) (h1 @ drop 4 view0) = Some (h2 @ drop 8 view0)"
    using setUint32_append [of h1 4 "drop 4 view0"] len by (simp add: h1_def h2_def)
  have s3: "writeString (h2 @ drop 8 view0) 8 ''WAVE'' = Some (h3 @ drop 12 view0)"
    using writeString_append [where pre=h2 and offset=8 and k=4 and string="''WAVE''" and rest="drop 8 view0"] len
    by (simp add: h1_def h2_def h3_def)
  have s4: "writeString (h3 @ drop 12 view0) 12 ''fmt '' = Some (h4 @ drop 16 view0)"
    using writeString_append [where pre=h3 and offset=12 and k=4 and string="''fmt ''" and rest="drop 12 view0"] len
    by (simp add: h1_def h2_def h3_def h4_def)
  have l4: "length h4 = 16" by (simp add: h1_def h2_def h3_def h4_def)
  have s5: "setUint32 16 16 (h4 @ drop 16 view0) = Some (h5 @ drop 20 view0)"
    using setUint32_append [of h4 16 "drop 16 view0"] len l4 by (simp add: h5_def)
  have s6: "setUint16 20 1 (h5 @ drop 20 view0) = Some (h6 @ drop 22 view0)"
    using setUint16_append [of h5 20 "drop 20 view0"] len l4 by (simp add: h5_def h6_def)
  have s7: "setUint16 22 1 (h6 @ drop 22 view0) = Some (h7 @ drop 24 view0)"
    using setUint16_append [of h6 22 "drop 22 view0"] len l4
    by (simp add: h5_def h6_def h7_def)
  have l7: "length h7 = 24" using l4 by (simp add: h5_def h6_def h7_def)
  have s8: "setUint32 24 r (h7 @ drop 24 view0) = Some (h8 @ drop 28 view0)"
    using setUint32_append [of h7 24 "drop 24 view0"] len l7 by (simp add: h8_def)
  have s9: "setUint32 28 (r * 1 * 2) (h8 @ drop 28 view0) = Some (h9 @ drop 32 view0)"
    using setUint32_append [of h8 28 "drop 28 view0"] len l7 by (simp add: h8_def h9_def)
  have l9: "length h9 = 32" using l7 by (simp add: h8_def h9_def)
  have s10: "setUint16 32 (1 * 2) (h9 @ drop 32 view0) = Some (h10 @ drop 34 view0)"
    using setUint16_append [of h9 32 "drop 32 view0"] len l9 by (simp add: h10_def)
  have s11: "setUint16 34 (2 * 8) (h10 @ drop 34 view0) = Some (h11 @ drop 36 view0)"
    using setUint16_append [of h10 34 "drop 34 view0"] len l9 by (simp add: h10_def h11_def)
  have l11: "length h11 = 36" using l9 by (simp add: h10_def h11_def)
  have s12: "writeString (h11 @ drop 36 view0) 36 ''data'' = Some (h12 @ drop 40 view0)"
    using writeString_append [where pre=h11 and offset=36 and k=4 and string="''data''" and rest="drop 36 view0"] len l11
    by (simp add: h12_def)
  have s13: "setUint32 40 (int ?B) (h12 @ drop 40 view0) = Some (h13 @ drop 44 view0)"
    using setUint32_append [of h12 40 "drop 40 view0"] len l11 by (simp add: h12_def h13_def)
  have l13: "length h13 = 44" using l11 by (simp add: h12_def h13_def)
  have s14: "samples_loop (h13 @ drop 44 view0) 44 pcm16 0
      = Some (h13 @ concat (map (\<lambda>w. le16 (sint w)) pcm16))"
    using samples_loop_append [of h13 44 0 pcm16 "drop 44 view0"] len l13 by simp
  have hdr: "h13 = wav_header (2 * length pcm16) r"
    by (simp add: defs wav_header_def byteLength_def)
  have "write_wav view0 pcm16 r = Some (h13 @ concat (map (\<lambda>w. le16 (sint w)) pcm16))"
    unfolding write_wav_def Let_def
    by (simp only: s1 s2 s3 s4 s5 s6 s7 s8 s9 s10 s11 s12 s13 s14 bind.bind_lunit)
  then show ?thesis
    by (simp only: hdr wav_bytes_def)
qed

lemma uint_byte: "uint (word_of_int v :: byte) = v mod 256"
  by (simp add: uint_word_of_int_eq take_bit_eq_mod)

lemma split_low_byte: "0 \<le> c \<Longrightarrow> (v::int) mod (256 * c) = 256 * (v div 256 mod c) + v mod 256"
  by (rule zmod_zmult2_eq)

lemma decode16:
  "uint (word_of_int v :: byte) + 256 * uint (word_of_int (v div 256) :: byte) = v mod 65536"
proof -
  have "v mod (256 * 256) = 256 * (v div 256 mod 256) + v mod 256"
    by (rule split_low_byte) simp
  then have a: "v mod 65536 = 256 * (v div 256 mod 256) + v mod 256"
    by simp
  show ?thesis
    unfolding uint_byte a by (simp add: algebra_simps)
qed

lemma decode32:
  "uint (word_of_int v :: byte) + 256 * uint (word_of_int (v div 256) :: byte)
     + 65536 * uint (word_of_int (v div 65536) :: byte)
     + 16777216 * uint (word_of_int (v div 16777216) :: byte) = v mod 4294967296"
proof -
  have a: "v mod (256 * 16777216) = 256 * (v div 256 mod 16777216) + v mod 256"
    by (rule split_low_byte) simp
  have b: "(v div 256) mod (256 * 65536) = 256 * (v div 256 div 256 mod 65536) + v div 256 mod 256"
    by (rule split_low_byte) simp
  have c: "(v div 65536) mod (256 * 256) = 256 * (v div 65536 div 256 mod 256) + v div 65536 mod 256"
    by (rule split_low_byte) simp
  have d1: "v div 256 div 256 = v div (256 * 256)"
    by (rule zdiv_zmult2_eq [symmetric]) simp
  have d2: "v div 65536 div 256 = v div (65536 * 256)"
    by (rule zdiv_zmult2_eq [symmetric]) simp
  have a': "v mod 4294967296 = 256 * (v div 256 mod 16777216) + v mod 256"
    using a by simp
  have b': "v div 256 mod 16777216 = 256 * (v div 65536 mod 65536) + v div 256 mod 256"
    using b d1 by simp
  have c': "v div 65536 mod 65536 = 256 * (v div 16777216 mod 256) + v div 65536 mod 256"
    using c d2 by simp
  show ?thesis
    unfolding uint_byte a' b' c' by (simp add: algebra_simps)
qed

lemma getUint32_le32:
  assumes "length pre = off"
  shows "getUint32 off (pre @ le32 v @ rest) = v mod 4294967296"
proof -
  have nths: "(pre @ le32 v @ rest) ! off = word_of_int v"
    "(pre @ le32 v @ rest) ! (off + 1) = word_of_int (v div 256)"
    "(pre @ le32 v @ rest) ! (off + 2) = word_of_int (v div 65536)"
    "(pre @ le32 v @ rest) ! (off + 3) = word_of_int (v div 16777216)"
    using assms by (simp_all add: le32_def nth_append numeral_eq_Suc)
  show ?thesis
    unfolding getUint32_def nths by (rule decode32)
qed

lemma getUint16_le16:
  assumes "length pre = off"
  shows "getUint16 off (pre @ le16 v @ rest) = v mod 65536"
proof -
  have nths: "(pre @ le16 v @ rest) ! off = word_of_int v"
    "(pre @ le16 v @ rest) ! (off + 1) = word_of_int (v div 256)"
    using assms by (simp_all add: le16_def nth_append)
  show ?thesis
    unfolding getUint16_def nths by (rule decode16)
qed

lemma field32:
  "bytes = pre @ le32 v @ rest \<Longrightarrow> length pre = off \<Longrightarrow> getUint32 off bytes = v mod 4294967296"
  by (simp only: getUint32_le32)

lemma field16:
  "bytes = pre @ le16 v @ rest \<Longrightarrow> length pre = off \<Longrightarrow> getUint16 off bytes = v mod 65536"
  by (simp only: getUint16_le16)

lemma signed16:
  assumes "- 32768 \<le> s" "s < 32768"
  shows "(let u = s mod 65536 in if u < 32768 then u else u - 65536) = (s::int)"
proof (cases "0 \<le> s")
  case True
  with assms have "s mod 65536 = s" by simp
  with assms show ?thesis by simp
next
  case False
  have "s mod 65536 = (s + 65536) mod 65536" by simp
  also have "\<dots> = s + 65536"
    by (rule mod_pos_pos_trivial) (use False assms in simp_all)
  finally have "s mod 65536 = s + 65536" .
  with False assms show ?thesis by simp
qed

lemma length_samples: "length (concat (map (\<lambda>w. le16 (sint w)) ws)) = 2 * length ws"
  by (induction ws) simp_all

lemma length_wav_bytes: "length (wav_bytes pcm16 r) = 44 + 2 * length pcm16"
  by (simp add: wav_bytes_def length_samples)

lemma getInt16_sample:
  assumes "i < length pcm16"
  shows "getInt16 (44 + 2 * i) (wav_bytes pcm16 r) = sint (pcm16 ! i)"
proof -
  let ?f = "\<lambda>w::16 word. le16 (sint w)"
  let ?pre = "wav_header (2 * length pcm16) r @ concat (map ?f (take i pcm16))"
  have "pcm16 = take i pcm16 @ pcm16 ! i # drop (Suc i) pcm16"
    using assms by (rule id_take_nth_drop)
  then have "concat (map ?f pcm16)
      = concat (map ?f (take i pcm16 @ pcm16 ! i # drop (Suc i) pcm16))"
    by simp
  then have split: "wav_bytes pcm16 r
      = ?pre @ le16 (sint (pcm16 ! i)) @ concat (map ?f (drop (Suc i) pcm16))"
    by (simp add: wav_bytes_def)
  have "length ?pre = 44 + 2 * i"
    using assms by (simp add: length_samples)
  with split have u: "getUint16 (44 + 2 * i) (wav_bytes pcm16 r) = sint (pcm16 ! i) mod 65536"
    by (rule field16)
  have "- 32768 \<le> sint (pcm16 ! i)" "sint (pcm16 ! i) < 32768"
    using sint_ge [of "pcm16 ! i"] sint_lt [of "pcm16 ! i"] by simp_all
  then show ?thesis
    unfolding getInt16_def u by (rule signed16)
qed

lemma pcmToWav_closed:
  "pcmToWav pcm16 r = Some \<lparr>blob_bytes = wav_bytes pcm16 r, blob_type = ''audio/wav''\<rparr>"
  by (simp add: pcmToWav_def byteLength_def write_wav_closed)

lemma hdr_chunkSize:
  "getUint32 4 (wav_bytes pcm16 r) = (36 + int (2 * length pcm16)) mod 4294967296"
  by (rule field32 [where pre = "map char_byte ''RIFF''"])
     (simp_all add: wav_bytes_def wav_header_def)

lemma hdr_formatTag: "getUint16 20 (wav_bytes pcm16 r) = 1"
proof -
  have "getUint16 20 (wav_bytes pcm16 r) = 1 mod 65536"
    by (rule field16 [where pre = "map char_byte ''RIFF'' @ le32 (36 + int (2 * length pcm16))
         @ map char_byte ''WAVE'' @ map char_byte ''fmt '' @ le32 16"])
       (simp_all add: wav_bytes_def wav_header_def)
  then show ?thesis by simp
qed

lemma hdr_numChannels: "getUint16 22 (wav_bytes pcm16 r) = 1"
proof -
  have "getUint16 22 (wav_bytes pcm16 r) = 1 mod 65536"
    by (rule field16 [where pre = "map char_byte ''RIFF'' @ le32 (36 + int (2 * length pcm16))
         @ map char_byte ''WAVE'' @ map char_byte ''fmt '' @ le32 16 @ le16 1"])
       (simp_all add: wav_bytes_def wav_header_def)
  then show ?thesis by simp
qed

lemma hdr_sampleRate: "getUint32 24 (wav_bytes pcm16 r) = r mod 4294967296"
  by (rule field32 [where pre = "map char_byte ''RIFF'' @ le32 (36 + int (2 * length pcm16))
         @ map char_byte ''WAVE'' @ map char_byte ''fmt '' @ le32 16 @ le16 1 @ le16 1"])
     (simp_all add: wav_bytes_def wav_header_def)

lemma hdr_byteRate: "getUint32 28 (wav_bytes pcm16 r) = (r * 2) mod 4294967296"
  by (rule field32 [where pre = "map char_byte ''RIFF'' @ le32 (36 + int (2 * length pcm16))
         @ map char_byte ''WAVE'' @ map char_byte ''fmt '' @ le32 16 @ le16 1 @ le16 1 @ le32 r"])
     (simp_all add: wav_bytes_def wav_header_def)

lemma hdr_blockAlign: "getUint16 32 (wav_bytes pcm16 r) = 2"
proof -
  have "getUint16 32 (wav_bytes pcm16 r) = 2 mod 65536"
    by (rule field16 [where pre = "map char_byte ''RIFF'' @ le32 (36 + int (2 * length pcm16))
         @ map char_byte ''WAVE'' @ map char_byte ''fmt '' @ le32 16 @ le16 1 @ le16 1 @ le32 r
         @ le32 (r * 1 * 2)"])
       (simp_all add: wav_bytes_def wav_header_def)
  then show ?thesis by simp
qed

lemma hdr_bitsPerSample: "getUint16 34 (wav_bytes pcm16 r) = 16"
proof -
  have "getUint16 34 (wav_bytes pcm16 r) = 16 mod 65536"
    by (rule field16 [where pre = "map char_byte ''RIFF'' @ le32 (36 + int (2 * length pcm16))
         @ map char_byte ''WAVE'' @ map char_byte ''fmt '' @ le32 16 @ le16 1 @ le16 1 @ le32 r
         @ le32 (r * 1 * 2) @ le16 (1 * 2)"])
       (simp_all add: wav_bytes_def wav_header_def)
  then show ?thesis by simp
qed

lemma hdr_dataSize: "getUint32 40 (wav_bytes pcm16 r) = int (2 * length pcm16) mod 4294967296"
  by (rule field32 [where pre = "map char_byte ''RIFF'' @ le32 (36 + int (2 * length pcm16))
         @ map char_byte ''WAVE'' @ map char_byte ''fmt '' @ le32 16 @ le16 1 @ le16 1 @ le32 r
         @ le32 (r * 1 * 2) @ le16 (1 * 2) @ le16 (2 * 8) @ map char_byte ''data''"])
     (simp_all add: wav_bytes_def wav_header_def)

lemmas wav_readers = wav_chunkSize_def wav_formatTag_def wav_numChannels_def wav_sampleRate_def
  wav_byteRate_def wav_blockAlign_def wav_bitsPerSample_def wav_dataSize_def wav_sample_def
  wav_size_def wav_sampleCount_def

lemma pcmToWav_header_mod:
  "map_option wav_sampleRate (pcmToWav pcm16 r) = Some (r mod 4294967296)"
  "map_option wav_byteRate (pcmToWav pcm16 r) = Some ((r * 2) mod 4294967296)"
  "map_option wav_chunkSize (pcmToWav pcm16 r) = Some ((36 + int (2 * length pcm16)) mod 4294967296)"
  "map_option wav_dataSize (pcmToWav pcm16 r) = Some (int (2 * length pcm16) mod 4294967296)"
  by (simp_all only: pcmToWav_closed option.map wav_readers Blob.simps
        hdr_sampleRate hdr_byteRate hdr_chunkSize hdr_dataSize)

subsection \<open>The container\<close>

text \<open>
  Claim C1, as the code has it. For every sample array with \<open>36 + 2 * sampleCount < 2^32\<close>
  and every integer sample rate \<open>r\<close> with \<open>0 \<le> r < 2^32\<close>, \<open>pcmToWav\<close> returns a
  buffer of exactly \<open>44 + 2 * sampleCount\<close> bytes whose header, read little-endian,
  holds chunk size \<open>36 + 2 * sampleCount\<close>, format tag 1, channel count 1, sample rate
  \<open>r\<close>, byte rate \<open>r * 1 * 2\<close> reduced modulo \<open>2^32\<close> (which is \<open>r * 1 * 2\<close> itself
  when \<open>r < 2^31\<close>), block align 2, bits per sample 16 and data size
  \<open>2 * sampleCount\<close>, followed by the samples in their order, each little-endian; the
  sample count read back is the count supplied, and for zero samples the buffer is 44
  bytes with data size 0.
\<close>

theorem pcmToWav_layout:
  assumes "0 \<le> sampleRate" "sampleRate < 4294967296" "36 + 2 * length pcm16 < 4294967296"
  shows "map_option wav_size (pcmToWav pcm16 sampleRate) = Some (44 + 2 * length pcm16)
       \<and> map_option wav_chunkSize (pcmToWav pcm16 sampleRate) = Some (36 + 2 * int (length pcm16))
       \<and> map_option wav_formatTag (pcmToWav pcm16 sampleRate) = Some 1
       \<and> map_option wav_numChannels (pcmToWav pcm16 sampleRate) = Some 1
       \<and> map_option wav_sampleRate (pcmToWav pcm16 sampleRate) = Some sampleRate
       \<and> map_option wav_byteRate (pcmToWav pcm16 sampleRate) = Some ((sampleRate * 1 * 2) mod 4294967296)
       \<and> (sampleRate < 2147483648 \<longrightarrow>
            map_option wav_byteRate (pcmToWav pcm16 sampleRate) = Some (sampleRate * 1 * 2))
       \<and> map_option wav_blockAlign (pcmToWav pcm16 sampleRate) = Some 2
       \<and> map_option wav_bitsPerSample (pcmToWav pcm16 sampleRate) = Some 16
       \<and> map_option wav_dataSize (pcmToWav pcm16 sampleRate) = Some (2 * int (length pcm16))
       \<and> map_option wav_sampleCount (pcmToWav pcm16 sampleRate) = Some (int (length pcm16))
       \<and> (\<forall>i < length pcm16.
            map_option (wav_sample i) (pcmToWav pcm16 sampleRate) = Some (sint (pcm16 ! i)))
       \<and> (pcm16 = [] \<longrightarrow> map_option wav_size (pcmToWav pcm16 sampleRate) = Some 44
            \<and> map_option wav_dataSize (pcmToWav pcm16 sampleRate) = Some 0)"
proof -
  let ?n = "length pcm16"
  let ?w = "\<lparr>blob_bytes = wav_bytes pcm16 sampleRate, blob_type = ''audio/wav''\<rparr>"
  have run: "pcmToWav pcm16 sampleRate = Some ?w"
    by (rule pcmToWav_closed)
  have rate: "sampleRate mod 4294967296 = sampleRate"
    using assms by simp
  have chunk: "(36 + int (2 * ?n)) mod 4294967296 = 36 + 2 * int ?n"
    using assms by simp
  have data: "int (2 * ?n) mod 4294967296 = 2 * int ?n"
    using assms by simp
  have size: "wav_size ?w = 44 + 2 * ?n"
    by (simp add: wav_size_def length_wav_bytes)
  have c1: "wav_chunkSize ?w = 36 + 2 * int ?n"
    by (simp only: wav_chunkSize_def Blob.simps hdr_chunkSize chunk)
  have c2: "wav_formatTag ?w = 1" "wav_numChannels ?w = 1" "wav_blockAlign ?w = 2"
    "wav_bitsPerSample ?w = 16"
    by (simp_all only: wav_readers Blob.simps hdr_formatTag hdr_numChannels hdr_blockAlign
          hdr_bitsPerSample)
  have c3: "wav_sampleRate ?w = sampleRate"
    by (simp only: wav_sampleRate_def Blob.simps hdr_sampleRate rate)
  have c4: "wav_byteRate ?w = (sampleRate * 1 * 2) mod 4294967296"
    by (simp only: wav_byteRate_def Blob.simps hdr_byteRate mult_1_right)
  have c5: "wav_byteRate ?w = sampleRate * 1 * 2" if "sampleRate < 2147483648"
    using that assms(1) unfolding c4 by simp
  have c6: "wav_dataSize ?w = 2 * int ?n"
    by (simp only: wav_dataSize_def Blob.simps hdr_dataSize data)
  have c7: "wav_sampleCount ?w = int ?n"
    unfolding wav_sampleCount_def c6 by simp
  have c8: "wav_sample i ?w = sint (pcm16 ! i)" if "i < ?n" for i
    using that by (simp only: wav_sample_def Blob.simps getInt16_sample)
  show ?thesis
    unfolding run option.map
    by (intro conjI allI impI) (use size c1 c2 c3 c4 c5 c6 c7 c8 in simp_all)
qed

text \<open>The layout theorem at the samples \<open>1, -2\<close> and the rate 24000.\<close>

theorem pcmToWav_layout_witness:
  "map_option wav_size (pcmToWav [1, - 2] 24000) = Some 48
   \<and> map_option wav_chunkSize (pcmToWav [1, - 2] 24000) = Some 40
   \<and> map_option wav_formatTag (pcmToWav [1, - 2] 24000) = Some 1
   \<and> map_option wav_numChannels (pcmToWav [1, - 2] 24000) = Some 1
   \<and> map_option wav_sampleRate (pcmToWav [1, - 2] 24000) = Some 24000
   \<and> map_option wav_byteRate (pcmToWav [1, - 2] 24000) = Some 48000
   \<and> map_option wav_blockAlign (pcmToWav [1, - 2] 24000) = Some 2
   \<and> map_option wav_bitsPerSample (pcmToWav [1, - 2] 24000) = Some 16
   \<and> map_option wav_dataSize (pcmToWav [1, - 2] 24000) = Some 4
   \<and> map_option wav_sampleCount (pcmToWav [1, - 2] 24000) = Some 2
   \<and> map_option (wav_sample 0) (pcmToWav [1, - 2] 24000) = Some 1
   \<and> map_option (wav_sample 1) (pcmToWav [1, - 2] 24000) = Some (- 2)"
proof -
  have h: "(0::int) \<le> 24000" "(24000::int) < 4294967296"
    "36 + 2 * length [1, - 2 :: 16 word] < 4294967296"
    by simp_all
  show ?thesis
    using pcmToWav_layout [OF h] by (simp add: All_less_Suc)
qed

text \<open>
  Claim C1 as stated speaks of every sample rate and every array. The fields of the
  header are 32 bits wide. At the rate \<open>2^32\<close> (the second variant passes whatever
  number follows \<open>rate=\<close> in the MIME type) the sample-rate field holds 0, and parsing
  the header does not give the rate back; for \<open>2^31\<close> samples the data-size field holds
  0 and the chunk size 36.
\<close>

theorem pcmToWav_field_width_counterexample:
  "map_option wav_sampleRate (pcmToWav [] 4294967296) = Some 0
   \<and> map_option wav_sampleRate (pcmToWav [] 4294967296) \<noteq> Some 4294967296
   \<and> map_option wav_dataSize (pcmToWav (replicate 2147483648 0) 24000) = Some 0
   \<and> map_option wav_chunkSize (pcmToWav (replicate 2147483648 0) 24000) = Some 36"
  by (simp add: pcmToWav_header_mod)

text \<open>
  Claim C9. \<open>pcmToWav\<close> always returns, and what it returns is a function of
  \<open>(samples, sampleRate)\<close> alone: the blob holds \<open>wav_bytes samples sampleRate\<close>, and
  the writes give these bytes on any buffer of the allocated size, whatever it held
  before, so no byte of the output comes from anywhere but the arguments. In
  particular two invocations with identical arguments give identical outputs.
\<close>

theorem pcmToWav_deterministic:
  "pcmToWav pcm16 sampleRate = Some \<lparr>blob_bytes = wav_bytes pcm16 sampleRate, blob_type = ''audio/wav''\<rparr>
   \<and> (\<forall>view0. length view0 = 44 + byteLength pcm16 \<longrightarrow>
         write_wav view0 pcm16 sampleRate = Some (wav_bytes pcm16 sampleRate))
   \<and> (pcm16' = pcm16 \<and> sampleRate' = sampleRate \<longrightarrow>
         pcmToWav pcm16' sampleRate' = pcmToWav pcm16 sampleRate)"
proof (intro conjI allI impI)
  show "pcmToWav pcm16 sampleRate
      = Some \<lparr>blob_bytes = wav_bytes pcm16 sampleRate, blob_type = ''audio/wav''\<rparr>"
    by (rule pcmToWav_closed)
next
  fix view0 :: "byte list"
  assume "length view0 = 44 + byteLength pcm16"
  then have "length view0 = 44 + 2 * length pcm16"
    by (simp add: byteLength_def)
  then show "write_wav view0 pcm16 sampleRate = Some (wav_bytes pcm16 sampleRate)"
    by (rule write_wav_closed)
next
  assume "pcm16' = pcm16 \<and> sampleRate' = sampleRate"
  then show "pcmToWav pcm16' sampleRate' = pcmToWav pcm16 sampleRate"
    by simp
qed

text \<open>
  The determinism theorem at the samples \<open>1, -2\<close> and the rate 24000: a buffer of
  \<open>0xFF\<close> bytes and the zeroed buffer end up with the same 48 bytes.
\<close>

theorem pcmToWav_deterministic_witness:
  "write_wav (replicate 48 255) [1, - 2] 24000 = write_wav (replicate 48 0) [1, - 2] 24000
   \<and> map_option blob_bytes (pcmToWav [1, - 2] 24000) = write_wav (replicate 48 255) [1, - 2] 24000
   \<and> map_option blob_bytes (pcmToWav [1, - 2] 24000) =
       Some [82, 73, 70, 70, 40, 0, 0, 0, 87, 65, 86, 69, 102, 109, 116, 32,
             16, 0, 0, 0, 1, 0, 1, 0, 192, 93, 0, 0, 128, 187, 0, 0,
             2, 0, 16, 0, 100, 97, 116, 97, 4, 0, 0, 0, 1, 0, 254, 255]"
proof -
  have a: "length (replicate 48 (255::byte)) = 44 + byteLength [1, - 2 :: 16 word]"
    "length (replicate 48 (0::byte)) = 44 + byteLength [1, - 2 :: 16 word]"
    by (simp_all add: byteLength_def)
  have b: "wav_bytes [1, - 2] 24000 =
      [82, 73, 70, 70, 40, 0, 0, 0, 87, 65, 86, 69, 102, 109, 116, 32,
       16, 0, 0, 0, 1, 0, 1, 0, 192, 93, 0, 0, 128, 187, 0, 0,
       2, 0, 16, 0, 100, 97, 116, 97, 4, 0, 0, 0, 1, 0, 254, 255]"
    by (simp add: wav_bytes_def wav_header_def le32_def le16_def char_byte_def)
  show ?thesis
    using pcmToWav_deterministic [of "[1, - 2]" 24000 "[1, - 2]" 24000] a b by simp
qed

section \<open>Properties of \<open>fetchWithRetry\<close>\<close>


lemma failed_attempt_retried:
  assumes "\<not> key_missing v key url" "caught v (net retries) = Some e" "retries < MAX_RETRIES v"
  shows "fetchWithRetry v key net url retries =
           (fst (fetchWithRetry v key net url (retries + 1)),
            Fetch url # Sleep (2 ^ retries * 1000) # snd (fetchWithRetry v key net url (retries + 1)))"
  using assms
  by (subst fetchWithRetry.simps)
     (auto simp: caught_def Let_def split: attempt.splits prod.splits)

lemma retry_step:
  assumes "\<not> key_missing v key url" "caught v (net retries) = Some e" "retries < MAX_RETRIES v"
    and "n = retries + 1" "delay = 2 ^ retries * 1000"
    and "fetchWithRetry v key net url n = (r, effs)"
  shows "fetchWithRetry v key net url retries = (r, Fetch url # Sleep delay # effs)"
  unfolding failed_attempt_retried [where net = net and retries = retries, OF assms(1-3)]
  using assms(4-6) by simp

lemma failed_attempt_last:
  assumes "\<not> key_missing v key url" "caught v (net retries) = Some e" "\<not> retries < MAX_RETRIES v"
  shows "fetchWithRetry v key net url retries =
           (Inl (Error (''Failed after '' @ digits (int (MAX_RETRIES v)) @ '' attempts: ''
                        @ message_of e)), [Fetch url])"
  using assms
  by (subst fetchWithRetry.simps)
     (auto simp: caught_def Let_def split: attempt.splits prod.splits)









text \<open>
  Claim C2 on the code. A response with status 400 is not final: after one second the
  request is sent again, and a success of the second attempt is returned. Against a
  server that always answers 400 the first variant makes four attempts and reports
  the server's message behind \<open>Failed after 3 attempts:\<close>.
\<close>

theorem fetchWithRetry_retries_bad_request:
  "fetchWithRetry First ''K'' bad_request_then_ok (API_URL ''K'') 0 =
     (Inr (JsonObject (Body None ())),
      [Fetch (API_URL ''K''), Sleep 1000, Fetch (API_URL ''K'')])
   \<and> fetchWithRetry Second ''K'' bad_request_then_ok (API_URL_TTS ''K'') 0 =
     (Inr (JsonObject (Body None ())),
      [Fetch (API_URL_TTS ''K''), Sleep 1000, Fetch (API_URL_TTS ''K'')])
   \<and> fetchWithRetry First ''K'' always_400 (API_URL ''K'') 0 =
     (Inl (Error ''Failed after 3 attempts: API Error 400: API key not valid.''),
      [Fetch (API_URL ''K''), Sleep 1000, Fetch (API_URL ''K''), Sleep 2000,
       Fetch (API_URL ''K''), Sleep 4000, Fetch (API_URL ''K'')])"
proof -
  let ?e = "Error ''API Error 400: API key not valid.''"
  have k1: "\<not> key_missing First ''K'' (API_URL ''K'')"
    and k2: "\<not> key_missing Second ''K'' (API_URL_TTS ''K'')"
    by (simp_all add: key_missing_def)
  have bad: "caught v (bad_request_then_ok 0) = Some ?e" "caught v (always_400 k) = Some ?e"
    for v k
    by (simp_all add: caught_def try_block_def ok_def api_error_def bad_request_then_ok_def
          always_400_def or_string_def digits.simps digit_char_def)
  have good: "fetchWithRetry v ''K'' bad_request_then_ok url (Suc 0) =
      (Inr (JsonObject (Body None ())), [Fetch url])" for v url
    by (subst fetchWithRetry.simps)
       (simp add: key_missing_def try_block_def ok_def bad_request_then_ok_def
          split: variant.splits)
  have a: "fetchWithRetry First ''K'' bad_request_then_ok (API_URL ''K'') 0 =
     (Inr (JsonObject (Body None ())), [Fetch (API_URL ''K''), Sleep 1000, Fetch (API_URL ''K'')])"
    by (rule retry_step [where e = ?e and n = "Suc 0", OF k1])
       (simp_all add: bad good MAX_RETRIES_def)
  have b: "fetchWithRetry Second ''K'' bad_request_then_ok (API_URL_TTS ''K'') 0 =
     (Inr (JsonObject (Body None ())),
      [Fetch (API_URL_TTS ''K''), Sleep 1000, Fetch (API_URL_TTS ''K'')])"
    by (rule retry_step [where e = ?e and n = "Suc 0", OF k2])
       (simp_all add: bad good MAX_RETRIES_def)
  have r3: "fetchWithRetry First ''K'' always_400 (API_URL ''K'') 3 =
      (Inl (Error ''Failed after 3 attempts: API Error 400: API key not valid.''),
       [Fetch (API_URL ''K'')])"
    using failed_attempt_last [where net = always_400 and retries = 3, OF k1 bad(2)]
    by (simp add: MAX_RETRIES_def digits.simps digit_char_def)
  have r2: "fetchWithRetry First ''K'' always_400 (API_URL ''K'') 2 =
      (Inl (Error ''Failed after 3 attempts: API Error 400: API key not valid.''),
       [Fetch (API_URL ''K''), Sleep 4000, Fetch (API_URL ''K'')])"
    by (rule retry_step [where e = ?e and n = 3, OF k1])
       (simp_all add: bad r3 MAX_RETRIES_def)
  have r1: "fetchWithRetry First ''K'' always_400 (API_URL ''K'') (Suc 0) =
      (Inl (Error ''Failed after 3 attempts: API Error 400: API key not valid.''),
       [Fetch (API_URL ''K''), Sleep 2000, Fetch (API_URL ''K''), Sleep 4000,
        Fetch (API_URL ''K'')])"
    by (rule retry_step [where e = ?e and n = 2, OF k1])
       (simp_all add: bad r2 MAX_RETRIES_def)
  have c: "fetchWithRetry First ''K'' always_400 (API_URL ''K'') 0 =
      (Inl (Error ''Failed after 3 attempts: API Error 400: API key not valid.''),
       [Fetch (API_URL ''K''), Sleep 1000, Fetch (API_URL ''K''), Sleep 2000,
        Fetch (API_URL ''K''), Sleep 4000, Fetch (API_URL ''K'')])"
    by (rule retry_step [where e = ?e and n = "Suc 0", OF k1])
       (simp_all add: bad r1 MAX_RETRIES_def)
  show ?thesis
    using a b c by (intro conjI)
qed

lemma url_has_key:
  "str_includes (API_URL_GEMINI key) ''key=''" "str_includes (API_URL_TTS key) ''key=''"
  by (simp_all add: API_URL_GEMINI_def API_URL_TTS_def startsWith_def)

lemma missing_key_rejected:
  "fetchWithRetry First [] net url retries = (Inl (Error ''Missing API Key.''), [])"
  "fetchWithRetry Second [] net (API_URL_GEMINI []) retries =
     (Inl (Error ''Missing API Key. Please update the GEMINI_API_KEY constant in the code.''), [])"
  "fetchWithRetry Second [] net (API_URL_TTS []) retries =
     (Inl (Error ''Missing API Key. Please update the GEMINI_API_KEY constant in the code.''), [])"
  by (simp_all add: fetchWithRetry.simps [of _ "[]"] key_missing_def missing_key_message_def
        url_has_key)

lemma missing_key_on_component_urls:
  "fetchWithRetry v [] net (classification_url v []) retries
     = (Inl (Error (missing_key_message v)), [])"
  "fetchWithRetry v [] net (speech_url v []) retries
     = (Inl (Error (missing_key_message v)), [])"
  by (cases v; simp add: classification_url_def speech_url_def missing_key_rejected
        missing_key_message_def)+

section \<open>Properties of the classification flow\<close>

lemma first_attempt_returns:
  assumes "\<not> key_missing v key url" "try_block (net 0) = Returns r"
  shows "fetchWithRetry v key net url 0 = (r, [Fetch url])"
  using assms by (subst fetchWithRetry.simps) simp

lemma replies_with_returns: "try_block (replies_with c k) = Returns (Inr (JsonObject (Body None c)))"
  by (simp add: try_block_def replies_with_def ok_def)

lemma fetch_replies_with:
  "key \<noteq> [] \<Longrightarrow>
   fetchWithRetry v key (replies_with c) url 0 = (Inr (JsonObject (Body None c)), [Fetch url])"
  by (rule first_attempt_returns) (simp_all add: key_missing_def replies_with_returns split: variant.splits)

lemma zero_value: "toFixed 2 (js_divide (Math_round (js_times (js_times 0 INR_PER_USD) 100)) 100) = ''0.00''"
  by code_simp

lemma bottle_value: "valueINR (to_prediction bottle) = ''1.66''"
  by code_simp

lemma bottle_weight: "displayWeight First (to_prediction bottle) = ''50g''"
  by code_simp

lemma bottle_weight_second_variant: "displayWeight Second (to_prediction bottle) = ''50 grams''"
  by code_simp

lemma bottle_prediction:
  "to_prediction bottle =
     \<lparr>p_objectName = Some ''Plastic Bottle'', category = Some ''Plastic'', valueINR = ''1.66'',
      weightKg = fl (5 / 100), message = Some ''Rinse and place in recycling.''\<rparr>"
  using bottle_value by (simp add: to_prediction_def bottle_def or_0_def Let_def)

lemma analyzeWaste_parsed:
  assumes "base64 \<noteq> []" "map_of (VOICE_CONFIGS v) languageCode = Some voice"
    and "fetchWithRetry v key net (classification_url v key) 0 = (Inr (JsonObject response), effs)"
    and "content response = Some reply" "reply \<noteq> []"
  shows "analyzeWaste v key JSON_parse net base64 languageCode s =
     (case JSON_parse reply of
        None \<Rightarrow> s\<lparr>isLoading := False, error := Some ''Could not interpret AI classification data.'',
                    prediction := None, effects := effects s @ effs\<rparr>
      | Some JsonNull \<Rightarrow> s\<lparr>isLoading := False,
                    error := Some (cannot_read ''null'' ''estimatedValueUSD''),
                    prediction := None, effects := effects s @ effs\<rparr>
      | Some (JsonObject result) \<Rightarrow> s\<lparr>isLoading := False, error := None,
                    prediction := Some (to_prediction result), effects := effects s @ effs\<rparr>)"
  using assms
  by (simp add: analyzeWaste_def classifyWaste_def Let_def or_string_def cannot_read_def
        split: option.splits json.splits)


text \<open>
  Claim C5. The classification scenario, with exchange constant 83: the displayed value
  is \<open>1.66\<close> and the displayed weight of the first variant is \<open>50g\<close>.
\<close>

theorem bottle_scenario:
  "INR_PER_USD = 83
   \<and> prediction (analyzeWaste First ''K'' parse_scenarios (replies_with (Some bottle_text))
         ''aW1hZ2U='' ''en-US'' initial_state)
       = Some \<lparr>p_objectName = Some ''Plastic Bottle'', category = Some ''Plastic'',
               valueINR = ''1.66'', weightKg = fl (5 / 100),
               message = Some ''Rinse and place in recycling.''\<rparr>
   \<and> error (analyzeWaste First ''K'' parse_scenarios (replies_with (Some bottle_text))
         ''aW1hZ2U='' ''en-US'' initial_state) = None
   \<and> map_option (displayWeight First)
         (prediction (analyzeWaste First ''K'' parse_scenarios (replies_with (Some bottle_text))
            ''aW1hZ2U='' ''en-US'' initial_state))
       = Some ''50g''"
proof -
  have run: "analyzeWaste First ''K'' parse_scenarios (replies_with (Some bottle_text))
         ''aW1hZ2U='' ''en-US'' initial_state
      = initial_state\<lparr>isLoading := False, error := None,
          prediction := Some (to_prediction bottle),
          effects := effects initial_state @ [Fetch (classification_url First ''K'')]\<rparr>"
    by (subst analyzeWaste_parsed [where voice = "''Kore''" and reply = bottle_text
          and response = "Body None (Some bottle_text)"
          and effs = "[Fetch (classification_url First ''K'')]"])
       (simp_all add: VOICE_CONFIGS_def fetch_replies_with parse_scenarios_def bottle_text_def)
  show ?thesis
    unfolding run using bottle_weight by (simp add: INR_PER_USD_def bottle_prediction)
qed

text \<open>
  Claim C4, as the code has it. Whenever the reply text parses as a JSON object, with
  required fields missing or not, the classification flow reports no error and sets a
  prediction: a missing \<open>estimatedValueUSD\<close> is shown as \<open>0.00\<close>, a missing
  \<open>estimatedWeightKg\<close> is the weight 0, shown as \<open>None detectable\<close>, and the three
  string fields are passed on as they are, undefined when missing. The flow fails, with
  the message \<open>Could not interpret AI classification data.\<close> and no prediction, when the
  reply text does not parse.
\<close>

theorem analyzeWaste_fills_defaults:
  assumes "base64 \<noteq> []" "map_of (VOICE_CONFIGS v) languageCode = Some voice"
    and "fetchWithRetry v key net (classification_url v key) 0 = (Inr (JsonObject response), effs)"
    and "content response = Some reply" "reply \<noteq> []"
  shows "(\<forall>result. JSON_parse reply = Some (JsonObject result) \<longrightarrow>
            error (analyzeWaste v key JSON_parse net base64 languageCode s) = None
          \<and> prediction (analyzeWaste v key JSON_parse net base64 languageCode s)
              = Some (to_prediction result)
          \<and> p_objectName (to_prediction result) = objectName result
          \<and> category (to_prediction result) = material result
          \<and> message (to_prediction result) = disposalInstructions result
          \<and> (estimatedValueUSD result = None \<longrightarrow> valueINR (to_prediction result) = ''0.00'')
          \<and> (estimatedWeightKg result = None \<longrightarrow>
                weightKg (to_prediction result) = 0
              \<and> displayWeight v (to_prediction result) = ''None detectable''))
       \<and> (JSON_parse reply = None \<longrightarrow>
            error (analyzeWaste v key JSON_parse net base64 languageCode s)
              = Some ''Could not interpret AI classification data.''
          \<and> prediction (analyzeWaste v key JSON_parse net base64 languageCode s) = None)"
proof -
  note run = analyzeWaste_parsed [OF assms, of JSON_parse s]
  have fields: "p_objectName (to_prediction result) = objectName result"
    "category (to_prediction result) = material result"
    "message (to_prediction result) = disposalInstructions result" for result
    by (simp_all add: to_prediction_def Let_def)
  have val: "valueINR (to_prediction result) = ''0.00''" if "estimatedValueUSD result = None"
    for result
    using that zero_value by (simp add: to_prediction_def Let_def or_0_def)
  have weight: "weightKg (to_prediction result) = 0"
    "displayWeight v (to_prediction result) = ''None detectable''"
    if "estimatedWeightKg result = None" for result
    using that
    by (simp_all add: to_prediction_def displayWeight_def Let_def or_0_def split: variant.splits)
  show ?thesis
    unfolding run using fields val weight by simp
qed

text \<open>A reply with three of the five required fields missing, in the first variant.\<close>

theorem analyzeWaste_fills_defaults_witness:
  "error (analyzeWaste First ''K'' parse_scenarios (replies_with (Some can_text))
       ''aW1hZ2U='' ''en-US'' initial_state) = None
   \<and> prediction (analyzeWaste First ''K'' parse_scenarios (replies_with (Some can_text))
       ''aW1hZ2U='' ''en-US'' initial_state)
     = Some \<lparr>p_objectName = Some ''Can'', category = Some ''Metal'', valueINR = ''0.00'',
             weightKg = 0, message = None\<rparr>
   \<and> displayWeight First (to_prediction can) = ''None detectable''"
proof -
  have h: "''aW1hZ2U='' \<noteq> []" "map_of (VOICE_CONFIGS First) ''en-US'' = Some ''Kore''"
    "fetchWithRetry First ''K'' (replies_with (Some can_text)) (classification_url First ''K'') 0
       = (Inr (JsonObject (Body None (Some can_text))), [Fetch (classification_url First ''K'')])"
    "content (Body None (Some can_text)) = Some can_text" "can_text \<noteq> []"
    by (simp_all add: VOICE_CONFIGS_def fetch_replies_with can_text_def)
  have p: "parse_scenarios can_text = Some (JsonObject can)"
    by (simp add: parse_scenarios_def can_text_def bottle_text_def)
  have e: "to_prediction can = \<lparr>p_objectName = p_objectName (to_prediction can),
      category = category (to_prediction can), valueINR = valueINR (to_prediction can),
      weightKg = weightKg (to_prediction can), message = message (to_prediction can)\<rparr>"
    by simp
  have m: "estimatedValueUSD can = None" "estimatedWeightKg can = None" "objectName can = Some ''Can''"
    "material can = Some ''Metal''" "disposalInstructions can = None"
    by (simp_all add: can_def)
  from analyzeWaste_fills_defaults [OF h, of parse_scenarios initial_state] p m
  have "error (analyzeWaste First ''K'' parse_scenarios (replies_with (Some can_text))
       ''aW1hZ2U='' ''en-US'' initial_state) = None"
    and "prediction (analyzeWaste First ''K'' parse_scenarios (replies_with (Some can_text))
       ''aW1hZ2U='' ''en-US'' initial_state) = Some (to_prediction can)"
    and "p_objectName (to_prediction can) = Some ''Can''"
    and "category (to_prediction can) = Some ''Metal''"
    and "message (to_prediction can) = None"
    and "valueINR (to_prediction can) = ''0.00''"
    and "weightKg (to_prediction can) = 0"
    and "displayWeight First (to_prediction can) = ''None detectable''"
    by simp_all
  then show ?thesis
    using e by simp
qed

text \<open>
  Claim C4 as stated fails on the reply \<open>{}\<close>, which parses and misses all five
  required fields: no error is reported, and the prediction is filled with defaults.
\<close>

theorem analyzeWaste_empty_object_counterexample:
  "error (analyzeWaste First ''K'' parse_scenarios (replies_with (Some ''{}''))
       ''aW1hZ2U='' ''en-US'' initial_state) = None
   \<and> prediction (analyzeWaste First ''K'' parse_scenarios (replies_with (Some ''{}''))
       ''aW1hZ2U='' ''en-US'' initial_state)
     = Some \<lparr>p_objectName = None, category = None, valueINR = ''0.00'', weightKg = 0,
             message = None\<rparr>"
proof -
  have run: "analyzeWaste First ''K'' parse_scenarios (replies_with (Some ''{}''))
         ''aW1hZ2U='' ''en-US'' initial_state
      = initial_state\<lparr>isLoading := False, error := None,
          prediction := Some (to_prediction no_fields),
          effects := effects initial_state @ [Fetch (classification_url First ''K'')]\<rparr>"
    by (subst analyzeWaste_parsed [where voice = "''Kore''" and reply = "''{}''"
          and response = "Body None (Some ''{}'')"
          and effs = "[Fetch (classification_url First ''K'')]"])
       (simp_all add: VOICE_CONFIGS_def fetch_replies_with parse_scenarios_def bottle_text_def
          can_text_def)
  have "to_prediction no_fields =
      \<lparr>p_objectName = None, category = None, valueINR = ''0.00'', weightKg = 0, message = None\<rparr>"
    using zero_value by (simp add: to_prediction_def no_fields_def or_0_def Let_def)
  then show ?thesis
    unfolding run by simp
qed

section \<open>Properties of the speech flow\<close>

lemma playback_effects_append:
  "playback_effects (xs @ ys) = playback_effects xs @ playback_effects ys"
  by (induction xs rule: playback_effects.induct) simp_all

lemma attempts_append: "attempts (xs @ ys) = attempts xs + attempts ys"
  by (induction xs rule: attempts.induct) simp_all

lemma fetch_no_playback:
  "playback_effects (snd (fetchWithRetry v key net url retries)) = []"
proof (induction "MAX_RETRIES v - retries" arbitrary: retries)
  case 0
  then show ?case
    by (subst fetchWithRetry.simps)
       (auto simp: Let_def split: attempt.splits prod.splits)
next
  case (Suc n)
  have ih: "playback_effects (snd (fetchWithRetry v key net url (retries + 1))) = []"
    using Suc.hyps(2) by (intro Suc.hyps(1)) simp
  show ?case
    using ih
    by (subst fetchWithRetry.simps)
       (auto simp: Let_def split: attempt.splits prod.splits)
qed

lemma pause_keeps:
  "playback_effects (effects (pause s)) = playback_effects (effects s)"
  "map_option src (audioRef (pause s)) = map_option src (audioRef s)"
  "error (pause s) = error s"
  "isAudioGenerating (pause s) = isAudioGenerating s"
  "selectedLanguageCode (pause s) = selectedLanguageCode s"
  "\<not> isAudioPlaying s \<Longrightarrow> \<not> isAudioPlaying (pause s)"
  by (simp_all add: pause_def playback_effects_append split: option.splits)

lemma pause_effects: "audioRef s \<noteq> None \<Longrightarrow> effects (pause s) = effects s @ [Pause]"
  by (auto simp: pause_def split: option.splits)

lemma pause_paused: "audioRef s \<noteq> None \<Longrightarrow> map_option paused (audioRef (pause s)) = Some True"
  by (auto simp: pause_def split: option.splits)

lemma decode_four: "base64ToArrayBuffer ''AQD+/w=='' = Inr [1, 0, 254, 255]"
  by code_simp

lemma decode_three: "atob ''AQID'' = Some [char_of (1::nat), char_of (2::nat), char_of (3::nat)]"
  by code_simp

lemma samples_four: "new_Int16Array [1, 0, 254, 255] = Inr [1, - 2]"
  by code_simp

lemma no_rate: "declared_rate (mimeType pcm_without_rate) = None"
  by code_simp

lemma not_audio: "declared_rate (mimeType pcm_not_audio) = None"
  by code_simp

lemma startsWith_empty: "\<not> startsWith [] ''audio/''"
  by (simp add: startsWith_def)

lemma has_rate: "match_rate ''audio/L16;codec=pcm;rate=24000'' = Some ''24000''"
  "parseInt ''24000'' = 24000"
  by code_simp+

lemma generate_unfolded:
  assumes "truthy instructions" "\<not> (isAudioPlaying s \<and> audioRef s \<noteq> None)"
  shows "generateAndPlayAudio v key mayPlay net instructions s =
           settled v (speech_try v key mayPlay net (prepared s))"
  using assms
  by (auto simp: generateAndPlayAudio_def prepared_def settled_def Let_def
        split: prod.splits option.splits variant.splits)

lemma prepared_keeps:
  "playback_effects (effects (prepared s)) = playback_effects (effects s)"
  "map_option src (audioRef (prepared s)) = map_option src (audioRef s)"
  "selectedLanguageCode (prepared s) = selectedLanguageCode s"
  "\<not> isAudioPlaying (prepared s)"
  by (simp_all add: prepared_def pause_keeps Let_def)

lemma rejected_settles:
  assumes "truthy instructions" "\<not> (isAudioPlaying s \<and> audioRef s \<noteq> None)"
    and "speech_try v key mayPlay net (prepared s) = (Some err, (prepared s)\<lparr>effects := effects (prepared s) @ effs\<rparr>)"
    and "playback_effects effs = []"
  shows "error (generateAndPlayAudio v key mayPlay net instructions s) =
           Some (case v of
                   First \<Rightarrow> ''Voice generation unavailable. '' @ message_of err
                 | Second \<Rightarrow> or_string (Some (message_of err)) ''Could not generate voice instructions.'')"
    and "playback_effects (effects (generateAndPlayAudio v key mayPlay net instructions s))
           = playback_effects (effects s)"
    and "map_option src (audioRef (generateAndPlayAudio v key mayPlay net instructions s))
           = map_option src (audioRef s)"
    and "\<not> isAudioPlaying (generateAndPlayAudio v key mayPlay net instructions s)"
    and "\<not> isAudioGenerating (generateAndPlayAudio v key mayPlay net instructions s)"
  unfolding generate_unfolded [OF assms(1,2)] assms(3)
  using assms(4)
  by (simp_all add: settled_def prepared_keeps playback_effects_append split: variant.splits)

lemma speech_try_fetched:
  assumes "map_of (VOICE_CONFIGS v) (selectedLanguageCode s) = Some voice"
    and "fetchWithRetry v key net (speech_url v key) 0 = (Inr (JsonObject response), effs)"
    and "data (content response) = Some audioData" "audioData \<noteq> []"
  shows "speech_try v key mayPlay net s =
     (case v of
        First \<Rightarrow> build_and_play v mayPlay audioData 24000 (s\<lparr>effects := effects s @ effs\<rparr>)
      | Second \<Rightarrow>
          (case mimeType (content response) of
             None \<Rightarrow> (Some (Error ''TTS API failed to return audio data.''),
                       s\<lparr>effects := effects s @ effs\<rparr>)
           | Some mime \<Rightarrow>
               if mime \<noteq> [] \<and> startsWith mime ''audio/''
               then (case match_rate mime of
                       None \<Rightarrow> (Some (Error ''Sample rate information missing from TTS mimeType.''),
                                 s\<lparr>effects := effects s @ effs\<rparr>)
                     | Some rate \<Rightarrow>
                         build_and_play v mayPlay audioData (parseInt rate)
                           (s\<lparr>effects := effects s @ effs\<rparr>))
               else (Some (Error ''TTS API failed to return audio data.''),
                     s\<lparr>effects := effects s @ effs\<rparr>)))"
  using assms
  by (simp add: speech_try_def Let_def split: variant.splits option.splits)

lemma build_odd:
  assumes "atob audioData = Some binaryString" "odd (length binaryString)"
  shows "build_and_play v mayPlay audioData rate s =
           (Some (RangeError ''byte length of Int16Array should be a multiple of 2''), s)"
    and "\<exists>buffer. base64ToArrayBuffer audioData = Inr buffer
           \<and> new_Int16Array buffer = Inl (RangeError ''byte length of Int16Array should be a multiple of 2'')"
  using assms
  by (simp_all add: build_and_play_def base64ToArrayBuffer_def new_Int16Array_def odd_iff_mod_2_eq_one)

lemma build_four:
  "build_and_play v True ''AQD+/w=='' 24000 s =
     (None, s\<lparr>effects := effects s @ [CreateObjectURL \<lparr>blob_bytes = wav_bytes [1, - 2] 24000, blob_type = ''audio/wav''\<rparr>, NewAudio, Play],
              audioRef := Some \<lparr>src = \<lparr>blob_bytes = wav_bytes [1, - 2] 24000, blob_type = ''audio/wav''\<rparr>, paused = False\<rparr>,
              isAudioGenerating := False, isAudioPlaying := True\<rparr>)"
  by (simp add: build_and_play_def decode_four samples_four pcmToWav_closed play_def Let_def)

lemma build_refused:
  "build_and_play First False ''AQD+/w=='' 24000 s =
     (None, s\<lparr>effects := effects s @ [CreateObjectURL \<lparr>blob_bytes = wav_bytes [1, - 2] 24000, blob_type = ''audio/wav''\<rparr>, NewAudio, Play],
              audioRef := Some \<lparr>src = \<lparr>blob_bytes = wav_bytes [1, - 2] 24000, blob_type = ''audio/wav''\<rparr>, paused = True\<rparr>,
              isAudioGenerating := False, isAudioPlaying := True\<rparr>)"
  "build_and_play Second False ''AQD+/w=='' 24000 s =
     (None, s\<lparr>effects := effects s @ [CreateObjectURL \<lparr>blob_bytes = wav_bytes [1, - 2] 24000, blob_type = ''audio/wav''\<rparr>, NewAudio, Play],
              audioRef := Some \<lparr>src = \<lparr>blob_bytes = wav_bytes [1, - 2] 24000, blob_type = ''audio/wav''\<rparr>, paused = True\<rparr>,
              isAudioGenerating := False, isAudioPlaying := False,
              error := Some ''Playback failed. Ensure your browser is not blocking media autoplay.''\<rparr>)"
  by (simp_all add: build_and_play_def decode_four samples_four pcmToWav_closed play_def Let_def)

text \<open>
  Claim C6, as the code has it. In the second variant a speech response that carries
  audio data, but whose MIME type is absent, is not \<open>audio/*\<close> or holds no \<open>rate=\<close>
  followed by digits, is rejected: the flow reports
  \<open>Sample rate information missing from TTS mimeType.\<close> when the MIME type is \<open>audio/*\<close>
  and \<open>TTS API failed to return audio data.\<close> when it is not, creates no object URL and
  no audio element, starts no playback, and ends neither playing nor generating. The
  first variant does not read the MIME type: it builds the container at 24000 Hz.
\<close>

theorem speech_without_rate:
  assumes "truthy instructions" "\<not> (isAudioPlaying s \<and> audioRef s \<noteq> None)"
    and "map_of (VOICE_CONFIGS v) (selectedLanguageCode s) = Some voice"
    and "fetchWithRetry v key net (speech_url v key) 0 = (Inr (JsonObject response), effs)"
    and "data (content response) = Some audioData" "audioData \<noteq> []"
    and "declared_rate (mimeType (content response)) = None"
  shows "(v = Second \<longrightarrow>
            error (generateAndPlayAudio v key mayPlay net instructions s)
              = Some (if is_audio (mimeType (content response))
                      then ''Sample rate information missing from TTS mimeType.''
                      else ''TTS API failed to return audio data.'')
          \<and> playback_effects (effects (generateAndPlayAudio v key mayPlay net instructions s))
              = playback_effects (effects s)
          \<and> map_option src (audioRef (generateAndPlayAudio v key mayPlay net instructions s))
              = map_option src (audioRef s)
          \<and> \<not> isAudioPlaying (generateAndPlayAudio v key mayPlay net instructions s)
          \<and> \<not> isAudioGenerating (generateAndPlayAudio v key mayPlay net instructions s))
       \<and> (v = First \<longrightarrow>
            generateAndPlayAudio v key mayPlay net instructions s
              = settled v (build_and_play v mayPlay audioData 24000
                            ((prepared s)\<lparr>effects := effects (prepared s) @ effs\<rparr>)))"
proof (cases v)
  case First
  have "speech_try v key mayPlay net (prepared s) =
      build_and_play v mayPlay audioData 24000 ((prepared s)\<lparr>effects := effects (prepared s) @ effs\<rparr>)"
    using speech_try_fetched [of v "prepared s" voice key net response effs audioData mayPlay]
      assms(3-6) First
    by (simp add: prepared_keeps)
  then show ?thesis
    using First generate_unfolded [OF assms(1,2)] by simp
next
  case Second
  let ?s1 = "(prepared s)\<lparr>effects := effects (prepared s) @ effs\<rparr>"
  let ?m = "if is_audio (mimeType (content response))
            then ''Sample rate information missing from TTS mimeType.''
            else ''TTS API failed to return audio data.''"
  have quiet: "playback_effects effs = []"
    using fetch_no_playback [of v key net "speech_url v key" 0] assms(4) by simp
  have r: "speech_try v key mayPlay net (prepared s) = (Some (Error ?m), ?s1)"
    using speech_try_fetched [of v "prepared s" voice key net response effs audioData mayPlay]
      assms(3-7) Second
    by (auto simp: prepared_keeps declared_rate_def is_audio_def startsWith_empty
          split: option.splits if_splits)
  have "?m \<noteq> []"
    by simp
  then show ?thesis
    using rejected_settles [OF assms(1,2) r quiet] Second by (simp add: or_string_def)
qed

lemma scenario_facts:
  "truthy (Some ''Rinse and place in recycling.'')"
  "\<not> (isAudioPlaying initial_state \<and> audioRef initial_state \<noteq> None)"
  "map_of (VOICE_CONFIGS v) (selectedLanguageCode initial_state) = Some ''Kore''"
  "fetchWithRetry v ''K'' (replies_with c) (speech_url v ''K'') 0
     = (Inr (JsonObject (Body None c)), [Fetch (speech_url v ''K'')])"
  "prepared initial_state = initial_state\<lparr>isAudioGenerating := True\<rparr>"
  by (simp_all add: truthy_def initial_state_def VOICE_CONFIGS_def fetch_replies_with
        prepared_def split: variant.splits)

text \<open>
  The second variant on four bytes of audio whose MIME type is \<open>audio/*\<close> and names no
  rate, and on the same audio with a MIME type that names a rate and is not \<open>audio/*\<close>.
\<close>

theorem speech_without_rate_witness:
  "error (generateAndPlayAudio Second ''K'' True (replies_with pcm_without_rate)
       (Some ''Rinse and place in recycling.'') initial_state)
     = Some ''Sample rate information missing from TTS mimeType.''
   \<and> playback_effects (effects (generateAndPlayAudio Second ''K'' True
         (replies_with pcm_without_rate) (Some ''Rinse and place in recycling.'') initial_state)) = []
   \<and> audioRef (generateAndPlayAudio Second ''K'' True (replies_with pcm_without_rate)
         (Some ''Rinse and place in recycling.'') initial_state) = None
   \<and> \<not> isAudioPlaying (generateAndPlayAudio Second ''K'' True (replies_with pcm_without_rate)
         (Some ''Rinse and place in recycling.'') initial_state)
   \<and> error (generateAndPlayAudio Second ''K'' True (replies_with pcm_not_audio)
       (Some ''Rinse and place in recycling.'') initial_state)
     = Some ''TTS API failed to return audio data.''
   \<and> playback_effects (effects (generateAndPlayAudio Second ''K'' True
         (replies_with pcm_not_audio) (Some ''Rinse and place in recycling.'') initial_state)) = []
   \<and> audioRef (generateAndPlayAudio Second ''K'' True (replies_with pcm_not_audio)
         (Some ''Rinse and place in recycling.'') initial_state) = None
   \<and> \<not> isAudioPlaying (generateAndPlayAudio Second ''K'' True (replies_with pcm_not_audio)
         (Some ''Rinse and place in recycling.'') initial_state)"
proof -
  have d: "data (content (Body None pcm_without_rate)) = Some ''AQD+/w==''" "''AQD+/w=='' \<noteq> []"
    "declared_rate (mimeType (content (Body None pcm_without_rate))) = None"
    using no_rate by (simp_all add: pcm_without_rate_def)
  have d': "data (content (Body None pcm_not_audio)) = Some ''AQD+/w==''" "''AQD+/w=='' \<noteq> []"
    "declared_rate (mimeType (content (Body None pcm_not_audio))) = None"
    using not_audio by (simp_all add: pcm_not_audio_def)
  have m: "is_audio (mimeType (content (Body None pcm_without_rate)))"
    "\<not> is_audio (mimeType (content (Body None pcm_not_audio)))"
    by (simp_all add: is_audio_def pcm_without_rate_def pcm_not_audio_def startsWith_def)
  from speech_without_rate [where mayPlay = True and v = Second, OF scenario_facts(1-4) d]
    speech_without_rate [where mayPlay = True and v = Second, OF scenario_facts(1-4) d']
  show ?thesis
    using m by (simp add: initial_state_def)
qed

text \<open>
  Claim C6 as stated fails in the first variant: the same response, audio data with a
  MIME type that names no rate, is packed at 24000 Hz and played.
\<close>

theorem speech_without_rate_counterexample:
  "error (generateAndPlayAudio First ''K'' True (replies_with pcm_without_rate)
       (Some ''Rinse and place in recycling.'') initial_state) = None
   \<and> isAudioPlaying (generateAndPlayAudio First ''K'' True (replies_with pcm_without_rate)
       (Some ''Rinse and place in recycling.'') initial_state)
   \<and> audioRef (generateAndPlayAudio First ''K'' True (replies_with pcm_without_rate)
       (Some ''Rinse and place in recycling.'') initial_state)
     = Some \<lparr>src = \<lparr>blob_bytes = wav_bytes [1, - 2] 24000, blob_type = ''audio/wav''\<rparr>,
             paused = False\<rparr>
   \<and> playback_effects (effects (generateAndPlayAudio First ''K'' True
       (replies_with pcm_without_rate) (Some ''Rinse and place in recycling.'') initial_state))
     = [CreateObjectURL \<lparr>blob_bytes = wav_bytes [1, - 2] 24000, blob_type = ''audio/wav''\<rparr>,
        NewAudio, Play]"
proof -
  have d: "data (content (Body None pcm_without_rate)) = Some ''AQD+/w==''" "''AQD+/w=='' \<noteq> []"
    by (simp_all add: pcm_without_rate_def)
  have "speech_try First ''K'' True (replies_with pcm_without_rate) (prepared initial_state)
      = build_and_play First True ''AQD+/w=='' 24000
          ((prepared initial_state)\<lparr>effects := effects (prepared initial_state)
             @ [Fetch (speech_url First ''K'')]\<rparr>)"
    using speech_try_fetched [where s = "prepared initial_state" and voice = "''Kore''"
        and mayPlay = True, OF _ scenario_facts(4) d(1,2)]
    by (simp add: prepared_keeps scenario_facts(3))
  then show ?thesis
    unfolding generate_unfolded [OF scenario_facts(1,2)] scenario_facts(5)
    by (simp add: build_four settled_def initial_state_def)
qed

text \<open>
  Claim C10. When the decoded audio has an odd number of bytes, \<open>new Int16Array\<close>
  throws a \<open>RangeError\<close>; the speech flow then reports an error (in the first variant
  the \<open>RangeError\<close>'s message behind \<open>Voice generation unavailable.\<close>), creates no object
  URL and no audio element, starts no playback, and ends neither playing nor
  generating. No sample is dropped or padded: nothing is built.
\<close>

theorem odd_payload_rejected:
  assumes "truthy instructions" "\<not> (isAudioPlaying s \<and> audioRef s \<noteq> None)"
    and "map_of (VOICE_CONFIGS v) (selectedLanguageCode s) = Some voice"
    and "fetchWithRetry v key net (speech_url v key) 0 = (Inr (JsonObject response), effs)"
    and "data (content response) = Some audioData" "audioData \<noteq> []"
    and "atob audioData = Some binaryString" "odd (length binaryString)"
  shows "(\<exists>buffer. base64ToArrayBuffer audioData = Inr buffer
            \<and> new_Int16Array buffer
                = Inl (RangeError ''byte length of Int16Array should be a multiple of 2''))
       \<and> error (generateAndPlayAudio v key mayPlay net instructions s) \<noteq> None
       \<and> (v = First \<longrightarrow> error (generateAndPlayAudio v key mayPlay net instructions s)
            = Some ''Voice generation unavailable. byte length of Int16Array should be a multiple of 2'')
       \<and> playback_effects (effects (generateAndPlayAudio v key mayPlay net instructions s))
           = playback_effects (effects s)
       \<and> map_option src (audioRef (generateAndPlayAudio v key mayPlay net instructions s))
           = map_option src (audioRef s)
       \<and> \<not> isAudioPlaying (generateAndPlayAudio v key mayPlay net instructions s)
       \<and> \<not> isAudioGenerating (generateAndPlayAudio v key mayPlay net instructions s)"
proof -
  let ?s1 = "(prepared s)\<lparr>effects := effects (prepared s) @ effs\<rparr>"
  let ?g = "generateAndPlayAudio v key mayPlay net instructions s"
  have quiet: "playback_effects effs = []"
    using fetch_no_playback [of v key net "speech_url v key" 0] assms(4) by simp
  have "\<exists>err. speech_try v key mayPlay net (prepared s) = (Some err, ?s1)
          \<and> (v = First \<longrightarrow> err = RangeError ''byte length of Int16Array should be a multiple of 2'')"
    using speech_try_fetched [of v "prepared s" voice key net response effs audioData mayPlay]
      assms(3-6) build_odd(1) [OF assms(7,8)]
    by (auto simp: prepared_keeps split: option.splits variant.splits)
  then obtain err where r: "speech_try v key mayPlay net (prepared s) = (Some err, ?s1)"
    and f: "v = First \<longrightarrow> err = RangeError ''byte length of Int16Array should be a multiple of 2''"
    by blast
  note out = rejected_settles [OF assms(1,2) r quiet]
  have "error ?g \<noteq> None"
    using out(1) by simp
  moreover have "v = First \<longrightarrow> error ?g
      = Some ''Voice generation unavailable. byte length of Int16Array should be a multiple of 2''"
    using out(1) f by auto
  ultimately show ?thesis
    using out(2-5) build_odd(2) [OF assms(7,8)] by simp
qed

text \<open>The first variant on a payload of three bytes.\<close>

theorem odd_payload_rejected_witness:
  "error (generateAndPlayAudio First ''K'' True (replies_with pcm_odd)
       (Some ''Rinse and place in recycling.'') initial_state)
     = Some ''Voice generation unavailable. byte length of Int16Array should be a multiple of 2''
   \<and> playback_effects (effects (generateAndPlayAudio First ''K'' True (replies_with pcm_odd)
       (Some ''Rinse and place in recycling.'') initial_state)) = []
   \<and> audioRef (generateAndPlayAudio First ''K'' True (replies_with pcm_odd)
       (Some ''Rinse and place in recycling.'') initial_state) = None
   \<and> \<not> isAudioPlaying (generateAndPlayAudio First ''K'' True (replies_with pcm_odd)
       (Some ''Rinse and place in recycling.'') initial_state)"
proof -
  have d: "data (content (Body None pcm_odd)) = Some ''AQID''" "''AQID'' \<noteq> []"
    by (simp_all add: pcm_odd_def)
  have o: "odd (length [char_of (1::nat), char_of (2::nat), char_of (3::nat)])"
    by simp
  show ?thesis
    using odd_payload_rejected [where mayPlay = True, OF scenario_facts(1-4) d decode_three o]
    by (simp add: initial_state_def)
qed

lemma pause_some:
  assumes "audioRef s = Some a"
  shows "pause s = (if paused a then s\<lparr>effects := effects s @ [Pause]\<rparr>
                    else s\<lparr>audioRef := Some (a\<lparr>paused := True\<rparr>), isAudioPlaying := False,
                           effects := effects s @ [Pause]\<rparr>)"
  using assms by (simp add: pause_def)

text \<open>
  A play request when \<open>isAudioPlaying\<close> holds and there is a current audio element,
  through the button or through \<open>generateAndPlayAudio\<close> itself: it does nothing but call
  \<open>pause()\<close> on that element, so no request is sent and no synthesis starts. When the
  element was playing, its \<open>pause\<close> event clears \<open>isAudioPlaying\<close> and the state is
  \<open>Idle\<close>; when it was not, no event is fired and the state stays \<open>Playing\<close>.
\<close>

lemma stop_request:
  assumes "isAudioPlaying s" "audioRef s = Some a"
  shows "handleAudioButtonClick v key mayPlay net msg s = pause s"
    and "truthy msg \<Longrightarrow> generateAndPlayAudio v key mayPlay net msg s = pause s"
    and "effects (pause s) = effects s @ [Pause]"
    and "attempts (effects (pause s)) = attempts (effects s)"
    and "audioRef (pause s) = Some (a\<lparr>paused := True\<rparr>)"
    and "isAudioGenerating (pause s) = isAudioGenerating s"
    and "\<not> paused a \<Longrightarrow> \<not> isAudioPlaying (pause s)"
    and "\<not> paused a \<Longrightarrow> \<not> isAudioGenerating s \<Longrightarrow> phase (pause s) = Idle"
    and "paused a \<Longrightarrow> pause s = s\<lparr>effects := effects s @ [Pause]\<rparr>"
    and "paused a \<Longrightarrow> phase (pause s) = Playing"
proof -
  show "handleAudioButtonClick v key mayPlay net msg s = pause s"
    using assms by (simp add: handleAudioButtonClick_def)
  show "truthy msg \<Longrightarrow> generateAndPlayAudio v key mayPlay net msg s = pause s"
    using assms by (simp add: generateAndPlayAudio_def)
  show "effects (pause s) = effects s @ [Pause]"
    by (simp add: pause_some [OF assms(2)])
  show "attempts (effects (pause s)) = attempts (effects s)"
    by (simp add: pause_some [OF assms(2)] attempts_append)
  show "audioRef (pause s) = Some (a\<lparr>paused := True\<rparr>)"
    using assms(2) by (simp add: pause_some [OF assms(2)])
  show "isAudioGenerating (pause s) = isAudioGenerating s"
    by (simp add: pause_some [OF assms(2)])
  show "\<not> paused a \<Longrightarrow> \<not> isAudioPlaying (pause s)"
    by (simp add: pause_some [OF assms(2)])
  show "\<not> paused a \<Longrightarrow> \<not> isAudioGenerating s \<Longrightarrow> phase (pause s) = Idle"
    by (simp add: pause_some [OF assms(2)] phase_def)
  show "paused a \<Longrightarrow> pause s = s\<lparr>effects := effects s @ [Pause]\<rparr>"
    by (simp add: pause_some [OF assms(2)])
  show "paused a \<Longrightarrow> phase (pause s) = Playing"
    using assms by (simp add: pause_some [OF assms(2)] phase_def)
qed

lemma playing_scenario_state:
  "playing_scenario =
     initial_state\<lparr>effects := [Fetch (speech_url First ''K''),
          CreateObjectURL \<lparr>blob_bytes = wav_bytes [1, - 2] 24000, blob_type = ''audio/wav''\<rparr>,
          NewAudio, Play],
        audioRef := Some \<lparr>src = \<lparr>blob_bytes = wav_bytes [1, - 2] 24000, blob_type = ''audio/wav''\<rparr>,
                          paused = False\<rparr>,
        isAudioPlaying := True\<rparr>"
proof -
  have d: "data (content (Body None pcm_with_rate)) = Some ''AQD+/w==''" "''AQD+/w=='' \<noteq> []"
    by (simp_all add: pcm_with_rate_def)
  have "speech_try First ''K'' True (replies_with pcm_with_rate) (prepared initial_state)
      = build_and_play First True ''AQD+/w=='' 24000
          ((prepared initial_state)\<lparr>effects := effects (prepared initial_state)
             @ [Fetch (speech_url First ''K'')]\<rparr>)"
    using speech_try_fetched [where s = "prepared initial_state" and voice = "''Kore''"
        and mayPlay = True, OF _ scenario_facts(4) d(1,2)]
    by (simp add: prepared_keeps scenario_facts(3))
  then show ?thesis
    unfolding playing_scenario_def generate_unfolded [OF scenario_facts(1,2)] scenario_facts(5)
    by (simp add: build_four settled_def initial_state_def)
qed

lemma refused_try:
  "speech_try First ''K'' False (replies_with pcm_with_rate) (prepared initial_state)
      = build_and_play First False ''AQD+/w=='' 24000
          ((prepared initial_state)\<lparr>effects := effects (prepared initial_state)
             @ [Fetch (speech_url First ''K'')]\<rparr>)"
  "speech_try Second ''K'' False (replies_with pcm_with_rate) (prepared initial_state)
      = build_and_play Second False ''AQD+/w=='' 24000
          ((prepared initial_state)\<lparr>effects := effects (prepared initial_state)
             @ [Fetch (speech_url Second ''K'')]\<rparr>)"
proof -
  have d: "data (content (Body None pcm_with_rate)) = Some ''AQD+/w==''" "''AQD+/w=='' \<noteq> []"
    by (simp_all add: pcm_with_rate_def)
  have m: "mimeType pcm_with_rate = Some ''audio/L16;codec=pcm;rate=24000''"
    by (simp add: pcm_with_rate_def)
  have a: "startsWith ''audio/L16;codec=pcm;rate=24000'' ''audio/''"
    by (simp add: startsWith_def)
  show "speech_try First ''K'' False (replies_with pcm_with_rate) (prepared initial_state)
      = build_and_play First False ''AQD+/w=='' 24000
          ((prepared initial_state)\<lparr>effects := effects (prepared initial_state)
             @ [Fetch (speech_url First ''K'')]\<rparr>)"
    using speech_try_fetched [where s = "prepared initial_state" and voice = "''Kore''"
        and mayPlay = False and v = First, OF _ scenario_facts(4) d(1,2)]
    by (simp add: prepared_keeps scenario_facts(3))
  have "speech_try Second ''K'' False (replies_with pcm_with_rate) (prepared initial_state)
      = build_and_play Second False ''AQD+/w=='' (parseInt ''24000'')
          ((prepared initial_state)\<lparr>effects := effects (prepared initial_state)
             @ [Fetch (speech_url Second ''K'')]\<rparr>)"
    unfolding speech_try_fetched [where s = "prepared initial_state" and voice = "''Kore''"
        and mayPlay = False and v = Second and response = "Body None pcm_with_rate",
        OF _ scenario_facts(4) d(1,2), unfolded prepared_keeps, OF scenario_facts(3)]
    using a by (simp add: m has_rate(1) del: match_rate.simps)
  then show "speech_try Second ''K'' False (replies_with pcm_with_rate) (prepared initial_state)
      = build_and_play Second False ''AQD+/w=='' 24000
          ((prepared initial_state)\<lparr>effects := effects (prepared initial_state)
             @ [Fetch (speech_url Second ''K'')]\<rparr>)"
    unfolding has_rate(2) .
qed

lemma refused_scenario_state:
  "refused_scenario First =
     initial_state\<lparr>effects := [Fetch (speech_url First ''K''),
          CreateObjectURL \<lparr>blob_bytes = wav_bytes [1, - 2] 24000, blob_type = ''audio/wav''\<rparr>,
          NewAudio, Play],
        audioRef := Some \<lparr>src = \<lparr>blob_bytes = wav_bytes [1, - 2] 24000, blob_type = ''audio/wav''\<rparr>,
                          paused = True\<rparr>,
        isAudioPlaying := True\<rparr>"
  "refused_scenario Second =
     initial_state\<lparr>effects := [Fetch (speech_url Second ''K''),
          CreateObjectURL \<lparr>blob_bytes = wav_bytes [1, - 2] 24000, blob_type = ''audio/wav''\<rparr>,
          NewAudio, Play],
        audioRef := Some \<lparr>src = \<lparr>blob_bytes = wav_bytes [1, - 2] 24000, blob_type = ''audio/wav''\<rparr>,
                          paused = True\<rparr>,
        error := Some ''Playback failed. Ensure your browser is not blocking media autoplay.''\<rparr>"
  using refused_try
  unfolding refused_scenario_def generate_unfolded [OF scenario_facts(1,2)] scenario_facts(5)
  by (simp_all add: build_refused settled_def initial_state_def)

text \<open>
  Claim C7 on the code. In the state reached by a successful synthesis whose playback
  starts, a click of the button stops the element, clears \<open>isAudioPlaying\<close> and leaves
  the state \<open>Idle\<close>, with no further request. In the state the first variant reaches
  when the browser refuses to start playback (the rejection of \<open>play()\<close> is not handled:
  \<open>isAudioPlaying\<close> is set, the element is paused and no error is reported) the state is
  \<open>Playing\<close> and a click is taken as a stop request, but \<open>pause()\<close> on a paused element
  fires no \<open>pause\<close> event: \<open>isAudioPlaying\<close> stays set and the state is \<open>Playing\<close> after
  the click, and after the next. No request is sent by these clicks. The second
  variant handles the rejection: it clears \<open>isAudioPlaying\<close> and reports an error, and
  its state is \<open>Idle\<close>.
\<close>

theorem play_request_after_refused_playback:
  "phase playing_scenario = Playing
   \<and> phase (click playing_scenario) = Idle
   \<and> \<not> isAudioPlaying (click playing_scenario)
   \<and> effects (click playing_scenario) = effects playing_scenario @ [Pause]
   \<and> attempts (effects (click playing_scenario)) = 1
   \<and> phase (refused_scenario First) = Playing
   \<and> error (refused_scenario First) = None
   \<and> map_option paused (audioRef (refused_scenario First)) = Some True
   \<and> click (refused_scenario First)
       = (refused_scenario First)\<lparr>effects := effects (refused_scenario First) @ [Pause]\<rparr>
   \<and> isAudioPlaying (click (refused_scenario First))
   \<and> phase (click (refused_scenario First)) = Playing
   \<and> phase (click (click (refused_scenario First))) = Playing
   \<and> attempts (effects (click (click (refused_scenario First)))) = 1
   \<and> phase (refused_scenario Second) = Idle
   \<and> error (refused_scenario Second)
       = Some ''Playback failed. Ensure your browser is not blocking media autoplay.''"
proof -
  let ?wav = "\<lparr>blob_bytes = wav_bytes [1, - 2] 24000, blob_type = ''audio/wav''\<rparr>"
  have playing: "isAudioPlaying playing_scenario"
    "audioRef playing_scenario = Some \<lparr>src = ?wav, paused = False\<rparr>"
    "\<not> isAudioGenerating playing_scenario" "attempts (effects playing_scenario) = 1"
    by (simp_all add: playing_scenario_state initial_state_def)
  have refused: "isAudioPlaying (refused_scenario First)"
    "audioRef (refused_scenario First) = Some \<lparr>src = ?wav, paused = True\<rparr>"
    "error (refused_scenario First) = None" "attempts (effects (refused_scenario First)) = 1"
    by (simp_all add: refused_scenario_state initial_state_def)
  have stopped: "click playing_scenario = pause playing_scenario"
    "phase (pause playing_scenario) = Idle" "\<not> isAudioPlaying (pause playing_scenario)"
    "effects (pause playing_scenario) = effects playing_scenario @ [Pause]"
    "attempts (effects (pause playing_scenario)) = 1"
    using stop_request [OF playing(1,2)] playing(3,4) by (simp_all add: click_def)
  have once: "click (refused_scenario First)
      = (refused_scenario First)\<lparr>effects := effects (refused_scenario First) @ [Pause]\<rparr>"
    using stop_request(1,9) [OF refused(1,2)] by (simp add: click_def)
  have twice: "click (click (refused_scenario First))
      = (refused_scenario First)\<lparr>effects := effects (refused_scenario First) @ [Pause, Pause]\<rparr>"
  proof -
    let ?s = "(refused_scenario First)\<lparr>effects := effects (refused_scenario First) @ [Pause]\<rparr>"
    have "isAudioPlaying ?s" "audioRef ?s = Some \<lparr>src = ?wav, paused = True\<rparr>"
      using refused(1,2) by simp_all
    from stop_request(1,9) [OF this]
    have "click ?s = ?s\<lparr>effects := effects ?s @ [Pause]\<rparr>"
      by (simp add: click_def)
    then show ?thesis
      unfolding once by simp
  qed
  have first: "phase (refused_scenario First) = Playing"
    using refused by (simp add: phase_def)
  have after_once: "phase (click (refused_scenario First)) = Playing"
    "isAudioPlaying (click (refused_scenario First))"
    unfolding once using refused by (simp_all add: phase_def)
  have after_twice: "phase (click (click (refused_scenario First))) = Playing"
    "attempts (effects (click (click (refused_scenario First)))) = 1"
    unfolding twice using refused by (simp_all add: phase_def attempts_append)
  have second: "phase (refused_scenario Second) = Idle"
    "error (refused_scenario Second)
       = Some ''Playback failed. Ensure your browser is not blocking media autoplay.''"
    by (simp_all add: refused_scenario_state initial_state_def phase_def)
  have start: "phase playing_scenario = Playing"
    using playing(1,2) by (simp add: phase_def)
  have element: "map_option paused (audioRef (refused_scenario First)) = Some True"
    using refused(2) by simp
  show ?thesis
    unfolding stopped(1)
    using start stopped(2-5) first refused(3) element once after_once after_twice second
    by (intro conjI)
qed


section \<open>The missing credential\<close>

lemma classify_without_key:
  "snd (classifyWaste v [] JSON_parse net base64 languageCode) = []"
  "\<exists>e. fst (classifyWaste v [] JSON_parse net base64 languageCode) = Inl e"
  by (simp_all add: classifyWaste_def missing_key_on_component_urls split: option.splits)

lemma analyze_without_key:
  "effects (analyzeWaste v [] JSON_parse net base64 languageCode s) = effects s"
  "error (analyzeWaste v [] JSON_parse net base64 languageCode s) \<noteq> None"
  using classify_without_key [of v JSON_parse net base64 languageCode]
  by (auto simp: analyzeWaste_def Let_def split: prod.splits sum.splits json.splits)

lemma speech_try_without_key:
  "\<exists>e. speech_try v [] mayPlay net s = (Some e, s)"
  by (simp add: speech_try_def missing_key_on_component_urls split: option.splits)

lemma pause_attempts: "attempts (effects (pause s)) = attempts (effects s)"
  by (simp add: pause_def attempts_append split: option.splits)

lemma generate_without_key:
  "attempts (effects (generateAndPlayAudio v [] mayPlay net instructions s)) = attempts (effects s)"
proof -
  obtain e where "speech_try v [] mayPlay net (prepared s) = (Some e, prepared s)"
    using speech_try_without_key by blast
  then have "attempts (effects (settled v (speech_try v [] mayPlay net (prepared s))))
      = attempts (effects s)"
    by (simp add: settled_def prepared_def Let_def pause_attempts split: variant.splits)
  then show ?thesis
    using generate_unfolded [of instructions s v "[]" mayPlay net]
    by (cases "truthy instructions \<and> \<not> (isAudioPlaying s \<and> audioRef s \<noteq> None)")
       (auto simp: generateAndPlayAudio_def pause_attempts)
qed

text \<open>
  Claim C8. With an empty key \<open>fetchWithRetry\<close> rejects with the missing-key error
  before the \<open>try\<close> block and performs no effect at all, so no request is sent: in the
  first variant for every URL, in the second for the two URLs of the component, which
  contain \<open>key=\<close>. So the classification flow sends nothing and ends with an error
  reported, and so does the \<open>try\<close> block of the speech flow; a call of
  \<open>generateAndPlayAudio\<close> sends nothing either.
\<close>

theorem missing_key_fails_before_request:
  "fetchWithRetry First [] net url retries = (Inl (Error ''Missing API Key.''), [])
   \<and> fetchWithRetry Second [] net (API_URL_GEMINI []) retries =
       (Inl (Error ''Missing API Key. Please update the GEMINI_API_KEY constant in the code.''), [])
   \<and> fetchWithRetry Second [] net (API_URL_TTS []) retries =
       (Inl (Error ''Missing API Key. Please update the GEMINI_API_KEY constant in the code.''), [])
   \<and> effects (analyzeWaste v [] JSON_parse cnet base64 languageCode s) = effects s
   \<and> error (analyzeWaste v [] JSON_parse cnet base64 languageCode s) \<noteq> None
   \<and> effects (settled v (speech_try v [] mayPlay snet s)) = effects s
   \<and> error (settled v (speech_try v [] mayPlay snet s)) \<noteq> None
   \<and> attempts (effects (generateAndPlayAudio v [] mayPlay snet instructions s))
       = attempts (effects s)"
proof -
  obtain e where "speech_try v [] mayPlay snet s = (Some e, s)"
    using speech_try_without_key by blast
  then have "effects (settled v (speech_try v [] mayPlay snet s)) = effects s"
    and "error (settled v (speech_try v [] mayPlay snet s)) \<noteq> None"
    by (simp_all add: settled_def split: variant.splits)
  then show ?thesis
    by (simp add: missing_key_rejected analyze_without_key generate_without_key)
qed

end
